theory Spec2Isabelle
  imports Complex_Main "HOL-Library.Word"
begin

section \<open>Errors\<close>

text \<open>
  Every exception the modelled code can raise, named by its Python class and the place that
  raises it. The explicit \<open>raise\<close> statements of the source are
  \<open>ValueError_record\<close> (rssa\_parser.py:48), the four \<open>NotImplementedError\<close>s
  (rssa\_parser.py:62, 73, 80, 100) and \<open>ValueError_particle\<close> (rssa.py:109). All the
  others are raised by Python or numpy inside a call the source makes.
\<close>

datatype error =
    ValueError_record
  | ValueError_frombuffer
  | ValueError_reshape
  | UnicodeDecodeError
  | NotImplementedError_code
  | NotImplementedError_nrcd
  | NotImplementedError_np1
  | NotImplementedError_niwr
  | IndexError
  | TypeError
  | ValueError_particle
  | ValueError_zero_size
  | ValueError_linspace
  | ValueError_zeros

text \<open>Sequencing of fallible steps: the first exception ends the computation.\<close>

definition bind :: "error + 'a \<Rightarrow> ('a \<Rightarrow> error + 'b) \<Rightarrow> error + 'b" where
  "bind m f = (case m of Inl e \<Rightarrow> Inl e | Inr v \<Rightarrow> f v)"

section \<open>rssa\_parser.py: the binary reader\<close>

type_synonym byte = "8 word"

text \<open>Little-endian integers, as \<open>np.int32\<close> and \<open>np.int64\<close> read them.\<close>

fun le_nat :: "byte list \<Rightarrow> nat" where
  "le_nat [] = 0"
| "le_nat (b # bs) = unat b + 256 * le_nat bs"

definition int32 :: "byte list \<Rightarrow> 32 word" where
  "int32 bs = of_nat (le_nat bs)"

definition int64 :: "byte list \<Rightarrow> 64 word" where
  "int64 bs = of_nat (le_nat bs)"

text \<open>
  The 8 bytes of an IEEE double are kept as their bit pattern: the reader only moves
  them, it never computes with them.
\<close>

definition float64 :: "byte list \<Rightarrow> 64 word" where
  "float64 bs = of_nat (le_nat bs)"

text \<open>
  The open file is the list of bytes not yet read. \<open>np.fromfile(file, INT, 1)[0]\<close>: with
  fewer than 4 bytes left \<open>fromfile\<close> returns an empty array and \<open>[0]\<close> raises IndexError.
\<close>

definition fromfile_int32_0 :: "byte list \<Rightarrow> error + (32 word \<times> byte list)" where
  "fromfile_int32_0 file =
     (if length file < 4 then Inl IndexError else Inr (int32 (take 4 file), drop 4 file))"

text \<open>
  \<open>np.fromfile(file, np.byte, count)\<close>: a negative count reads the whole rest of the
  file, a count beyond the end returns the bytes there are.
\<close>

definition fromfile_byte :: "byte list \<Rightarrow> int \<Rightarrow> byte list \<times> byte list" where
  "fromfile_byte file count =
     (if count < 0 then (file, []) else (take (nat count) file, drop (nat count) file))"

definition read_fortran_record :: "byte list \<Rightarrow> error + (byte list \<times> byte list)" where
  "read_fortran_record file =
     bind (fromfile_int32_0 file) (\<lambda>(count_1, file1).
       case fromfile_byte file1 (sint count_1) of (data, file2) \<Rightarrow>
         bind (fromfile_int32_0 file2) (\<lambda>(count_2, file3).
           if count_1 \<noteq> count_2 then Inl ValueError_record else Inr (data, file3)))"

text \<open>
  \<open>np.frombuffer(data, T, 1, offset)[0]\<close> raises ValueError unless the buffer holds a whole
  item at the offset; \<open>np.frombuffer(data, INT, offset=16)\<close> takes every item from the
  offset to the end and raises ValueError unless the rest is a whole number of items.
\<close>

definition frombuffer_int32_0 :: "byte list \<Rightarrow> nat \<Rightarrow> error + 32 word" where
  "frombuffer_int32_0 data offset =
     (if length data < offset + 4 then Inl ValueError_frombuffer
      else Inr (int32 (take 4 (drop offset data))))"

definition frombuffer_int64_0 :: "byte list \<Rightarrow> nat \<Rightarrow> error + 64 word" where
  "frombuffer_int64_0 data offset =
     (if length data < offset + 8 then Inl ValueError_frombuffer
      else Inr (int64 (take 8 (drop offset data))))"

text \<open>\<open>chunks n xs\<close>: the whole items of \<open>n\<close> elements in \<open>xs\<close>, in order.\<close>

definition chunks :: "nat \<Rightarrow> 'a list \<Rightarrow> 'a list list" where
  "chunks n xs = map (\<lambda>i. take n (drop (i * n) xs)) [0..<length xs div n]"

definition frombuffer_int32_all :: "byte list \<Rightarrow> nat \<Rightarrow> error + 32 word list" where
  "frombuffer_int32_all data offset =
     (if length data < offset \<or> (length data - offset) mod 4 \<noteq> 0 then Inl ValueError_frombuffer
      else Inr (map int32 (chunks 4 (drop offset data))))"

definition frombuffer_float64_all :: "byte list \<Rightarrow> error + 64 word list" where
  "frombuffer_float64_all data =
     (if length data mod 8 \<noteq> 0 then Inl ValueError_frombuffer
      else Inr (map float64 (chunks 8 data)))"

text \<open>\<open>a.reshape(-1, n)\<close> raises ValueError unless the size is a multiple of \<open>n\<close>.\<close>

definition reshape :: "'a list \<Rightarrow> nat \<Rightarrow> error + 'a list list" where
  "reshape a n = (if length a mod n \<noteq> 0 then Inl ValueError_reshape else Inr (chunks n a))"

subsection \<open>Decoding the identification record\<close>

text \<open>
  \<open>bytes.decode('UTF-8')\<close> gives the code points of the text and raises UnicodeDecodeError
  on a malformed sequence (a stray continuation byte, an overlong form, a surrogate, a
  value above U+10FFFF, a truncated sequence).
\<close>

definition cont :: "byte \<Rightarrow> bool" where
  "cont b = (0x80 \<le> b \<and> b \<le> 0xBF)"

definition low :: "byte \<Rightarrow> nat" where
  "low b = unat b mod 64"

fun decode_UTF8 :: "byte list \<Rightarrow> nat list option" where
  "decode_UTF8 [] = Some []"
| "decode_UTF8 (b0 # bs) =
     (if b0 < 0x80 then map_option ((#) (unat b0)) (decode_UTF8 bs)
      else if 0xC2 \<le> b0 \<and> b0 \<le> 0xDF then
        (case bs of
           b1 # r \<Rightarrow>
             if cont b1
             then map_option ((#) ((unat b0 mod 32) * 64 + low b1)) (decode_UTF8 r)
             else None
         | _ \<Rightarrow> None)
      else if 0xE0 \<le> b0 \<and> b0 \<le> 0xEF then
        (case bs of
           b1 # b2 # r \<Rightarrow>
             if (if b0 = 0xE0 then 0xA0 else 0x80) \<le> b1
                \<and> b1 \<le> (if b0 = 0xED then 0x9F else 0xBF) \<and> cont b2
             then map_option ((#) ((unat b0 mod 16) * 4096 + low b1 * 64 + low b2))
                    (decode_UTF8 r)
             else None
         | _ \<Rightarrow> None)
      else if 0xF0 \<le> b0 \<and> b0 \<le> 0xF4 then
        (case bs of
           b1 # b2 # b3 # r \<Rightarrow>
             if (if b0 = 0xF0 then 0x90 else 0x80) \<le> b1
                \<and> b1 \<le> (if b0 = 0xF4 then 0x8F else 0xBF) \<and> cont b2 \<and> cont b3
             then map_option
                    ((#) ((unat b0 mod 8) * 262144 + low b1 * 4096 + low b2 * 64 + low b3))
                    (decode_UTF8 r)
             else None
         | _ \<Rightarrow> None)
      else None)"

text \<open>\<open>needle in text\<close> on Python strings: \<open>needle\<close> occurs as a contiguous run.\<close>

fun str_in :: "nat list \<Rightarrow> nat list \<Rightarrow> bool" where
  "str_in needle [] = (needle = [])"
| "str_in needle (c # cs) = (take (length needle) (c # cs) = needle \<or> str_in needle cs)"

text \<open>The code points of \<open>'d1suned'\<close>.\<close>

definition d1suned :: "nat list" where
  "d1suned = [100, 49, 115, 117, 110, 101, 100]"

subsection \<open>The header\<close>

record surface =
  surf_id :: "32 word"
  surf_info :: "32 word"
  surf_type :: "32 word"
  num_params :: "32 word"
  params :: "32 word list"

record parameters =
  np1 :: "64 word"
  nrss :: "64 word"
  nrcd :: "32 word"
  njsw :: "32 word"
  niss :: "64 word"
  niwr :: "32 word"
  mipts :: "32 word"
  kjaq :: "32 word"
  surfaces :: "surface list"

text \<open>The body of the loop over the surfaces (rssa\_parser.py:85-94), without the read.\<close>

definition read_surface :: "byte list \<Rightarrow> 32 word \<Rightarrow> error + surface" where
  "read_surface data kjaq_v =
     bind (frombuffer_int32_0 data 0) (\<lambda>i.
     bind (if kjaq_v = 1 then frombuffer_int32_0 data 4 else Inr (- 1)) (\<lambda>inf.
     bind (frombuffer_int32_0 data 8) (\<lambda>t.
     bind (frombuffer_int32_0 data 12) (\<lambda>n.
     bind (frombuffer_int32_all data 16) (\<lambda>ps.
       Inr \<lparr>surf_id = i, surf_info = inf, surf_type = t, num_params = n, params = ps\<rparr>)))))"

text \<open>\<open>for i in range(njsw)\<close>: the argument is the number of iterations left.\<close>

fun read_surfaces :: "nat \<Rightarrow> 32 word \<Rightarrow> byte list \<Rightarrow> error + (surface list \<times> byte list)" where
  "read_surfaces 0 kjaq_v file = Inr ([], file)"
| "read_surfaces (Suc n) kjaq_v file =
     bind (read_fortran_record file) (\<lambda>(data, file1).
     bind (read_surface data kjaq_v) (\<lambda>s.
     bind (read_surfaces n kjaq_v file1) (\<lambda>(ss, file2).
       Inr (s # ss, file2))))"

text \<open>
  \<open>read_header\<close>, statement by statement. The last four bytes of the identification
  record are read into \<open>_last_dump\<close> and dropped; that read cannot fail on a record that
  holds the seven characters of the signature. The three values of the third record are
  read at once by \<open>np.frombuffer(data, INT, 3)\<close>, which raises on a record shorter than 12
  bytes, as the first of the three reads below that does not fit.
  \<open>njsw\<close> and \<open>niwr\<close> are \<open>np.int32\<close> scalars: \<open>njsw + niwr\<close> wraps around, and
  \<open>range(njsw, njsw + niwr)\<close> is empty unless the wrapped sum is above \<open>njsw\<close>. The first
  iteration of that loop reads a record and raises.
\<close>

definition read_header :: "byte list \<Rightarrow> error + (parameters \<times> byte list)" where
  "read_header file =
     bind (read_fortran_record file) (\<lambda>(data, file1).
     case decode_UTF8 data of
       None \<Rightarrow> Inl UnicodeDecodeError
     | Some format_record_id \<Rightarrow>
     if \<not> str_in d1suned format_record_id then Inl NotImplementedError_code
     else
     bind (read_fortran_record file1) (\<lambda>(data, file2).
     bind (frombuffer_int64_0 data 0) (\<lambda>np1_v.
     bind (frombuffer_int64_0 data 8) (\<lambda>nrss_v.
     bind (frombuffer_int32_0 data 16) (\<lambda>nrcd_v.
     bind (frombuffer_int32_0 data 20) (\<lambda>njsw_v.
     bind (frombuffer_int64_0 data 24) (\<lambda>niss_v.
     if nrcd_v \<noteq> 11 then Inl NotImplementedError_nrcd
     else if \<not> sint np1_v < 0 then Inl NotImplementedError_np1
     else
     bind (read_fortran_record file2) (\<lambda>(data, file3).
     bind (frombuffer_int32_0 data 0) (\<lambda>niwr_v.
     bind (frombuffer_int32_0 data 4) (\<lambda>mipts_v.
     bind (frombuffer_int32_0 data 8) (\<lambda>kjaq_v.
     bind (read_surfaces (nat (sint njsw_v)) kjaq_v file3) (\<lambda>(surfaces_v, file4).
     bind (if sint njsw_v < sint (njsw_v + niwr_v)
           then bind (read_fortran_record file4) (\<lambda>_. Inl NotImplementedError_niwr)
           else Inr file4) (\<lambda>file5.
     bind (read_fortran_record file5) (\<lambda>(_, file6).
       Inr (\<lparr>np1 = np1_v, nrss = nrss_v, nrcd = nrcd_v, njsw = njsw_v, niss = niss_v,
             niwr = niwr_v, mipts = mipts_v, kjaq = kjaq_v, surfaces = surfaces_v\<rparr>,
            file6)))))))))))))))"

subsection \<open>The tracks\<close>

text \<open>
  \<open>read_tracks\<close> takes the rest of the file: rows of 96 bytes, the columns 4 to 91 of
  each, flattened, read as doubles, 11 to a row.
\<close>

definition read_tracks :: "byte list \<Rightarrow> error + 64 word list list" where
  "read_tracks file =
     bind (reshape file 96) (\<lambda>data.
     bind (frombuffer_float64_all (concat (map (\<lambda>row. take 88 (drop 4 row)) data))) (\<lambda>data.
       reshape data 11))"

definition read_rssa :: "byte list \<Rightarrow> error + (parameters \<times> 64 word list list)" where
  "read_rssa file =
     bind (read_header file) (\<lambda>(parameters_v, infile).
     bind (read_tracks infile) (\<lambda>tracks.
       Inr (parameters_v, tracks)))"

section \<open>rssa.py: the track table and its views\<close>

text \<open>
  One row of \<open>self.tracks\<close>, its 11 columns in the order of the file (offsets 0 to 10):
  \<open>a b wgt erg tme x y z u v c\<close>. The columns are IEEE doubles in the program; from here
  on they are the real numbers those doubles stand for, and the arithmetic is exact.
\<close>

record track =
  t_a :: real
  t_b :: real
  t_wgt :: real
  t_erg :: real
  t_tme :: real
  t_x :: real
  t_y :: real
  t_z :: real
  t_u :: real
  t_v :: real
  t_c :: real

definition x_col :: "track list \<Rightarrow> real list" where
  "x_col tracks = map t_x tracks"

definition y_col :: "track list \<Rightarrow> real list" where
  "y_col tracks = map t_y tracks"

definition z_col :: "track list \<Rightarrow> real list" where
  "z_col tracks = map t_z tracks"

definition wgt :: "track list \<Rightarrow> real list" where
  "wgt tracks = map t_wgt tracks"

text \<open>\<open>np.where(cond)[0]\<close>: the indices where the condition holds, ascending.\<close>

definition np_where :: "('a \<Rightarrow> bool) \<Rightarrow> 'a list \<Rightarrow> nat list" where
  "np_where cond xs = filter (\<lambda>i. cond (xs ! i)) [0..<length xs]"

definition mask_neutron_tracks :: "track list \<Rightarrow> nat list" where
  "mask_neutron_tracks tracks = np_where (\<lambda>bitarray. bitarray < 900000000) (map (\<lambda>t. \<bar>t_b t\<bar>) tracks)"

definition mask_photon_tracks :: "track list \<Rightarrow> nat list" where
  "mask_photon_tracks tracks = np_where (\<lambda>bitarray. bitarray \<ge> 900000000) (map (\<lambda>t. \<bar>t_b t\<bar>) tracks)"

definition get_particle_mask :: "track list \<Rightarrow> string \<Rightarrow> error + nat list" where
  "get_particle_mask tracks particle =
     (if particle = ''n'' then Inr (mask_neutron_tracks tracks)
      else if particle = ''p'' then Inr (mask_photon_tracks tracks)
      else Inl ValueError_particle)"

text \<open>\<open>xs[0]\<close> raises IndexError on an empty array.\<close>

definition item_0 :: "'a list \<Rightarrow> error + 'a" where
  "item_0 xs = (case xs of [] \<Rightarrow> Inl IndexError | v # _ \<Rightarrow> Inr v)"

text \<open>\<open>np.linalg.norm\<close> of a vector.\<close>

definition linalg_norm :: "real list \<Rightarrow> real" where
  "linalg_norm vs = sqrt (sum_list (map (\<lambda>v. v\<^sup>2) vs))"




section \<open>plotter.py: the cylindrical binner\<close>

text \<open>
  Division of doubles by numpy: a zero divisor gives inf or nan, here \<open>None\<close>.
\<close>

definition true_divide :: "real \<Rightarrow> real \<Rightarrow> real option" where
  "true_divide p q = (if q = 0 then None else Some (p / q))"

text \<open>
  \<open>astype(int)\<close> truncates towards zero. The cast of nan, of inf and of a value outside
  the 64-bit range is the smallest 64-bit integer (numpy on x86-64).
\<close>

definition astype_int :: "real option \<Rightarrow> int" where
  "astype_int q =
     (case q of
        None \<Rightarrow> - (2 ^ 63)
      | Some r \<Rightarrow>
          (let t = (if r < 0 then \<lceil>r\<rceil> else \<lfloor>r\<rfloor>)
           in if - (2 ^ 63) \<le> t \<and> t < 2 ^ 63 then t else - (2 ^ 63)))"

definition closest :: "real list \<Rightarrow> real list \<Rightarrow> error + int list" where
  "closest axis values =
     (if length axis < 2 then Inl IndexError
      else
        let l0 = axis ! 0;
            lm = axis ! 1 - axis ! 0;
            idx = map (\<lambda>v. astype_int (true_divide (v - l0) lm)) values
        in Inr (map (\<lambda>i. if i = int (length axis) - 1 then int (length axis) - 2 else i) idx))"

text \<open>\<open>np.angle(x + 1j * y)\<close>, in radians, in \<open>(-\<pi>, \<pi>]\<close>, and 0 at the origin.\<close>

definition angle :: "real \<Rightarrow> real \<Rightarrow> real" where
  "angle xv yv =
     (if xv > 0 then arctan (yv / xv)
      else if xv < 0 then (if yv \<ge> 0 then arctan (yv / xv) + pi else arctan (yv / xv) - pi)
      else if yv > 0 then pi / 2
      else if yv < 0 then - (pi / 2)
      else 0)"

text \<open>\<open>a.min()\<close> and \<open>a.max()\<close> raise ValueError on an empty array.\<close>

definition np_min :: "real list \<Rightarrow> error + real" where
  "np_min xs = (case xs of [] \<Rightarrow> Inl ValueError_zero_size | v # vs \<Rightarrow> Inr (fold min vs v))"

definition np_max :: "real list \<Rightarrow> error + real" where
  "np_max xs = (case xs of [] \<Rightarrow> Inl ValueError_zero_size | v # vs \<Rightarrow> Inr (fold max vs v))"

text \<open>
  \<open>np.linspace(start, stop, num)\<close>: \<open>num\<close> evenly spaced values, the last one set to
  \<open>stop\<close>; ValueError for a negative \<open>num\<close>.
\<close>

definition linspace :: "real \<Rightarrow> real \<Rightarrow> int \<Rightarrow> error + real list" where
  "linspace start stop num =
     (if num < 0 then Inl ValueError_linspace
      else if num = 0 then Inr []
      else if num = 1 then Inr [start]
      else Inr (map (\<lambda>i. start + real i * ((stop - start) / real_of_int (num - 1)))
                  [0..<nat num - 1] @ [stop]))"

text \<open>\<open>a[mask]\<close> with an array of indices; IndexError for an index out of range.\<close>

definition take_mask :: "'a list \<Rightarrow> nat list \<Rightarrow> error + 'a list" where
  "take_mask xs mask_v =
     (if \<forall>i \<in> set mask_v. i < length xs then Inr (map (\<lambda>i. xs ! i) mask_v) else Inl IndexError)"

definition calculate_grid_axes_cyl ::
  "track list \<Rightarrow> int \<Rightarrow> int \<Rightarrow> nat list option \<Rightarrow> error + (real list \<times> real list)" where
  "calculate_grid_axes_cyl tracks z_int theta_int mask_v =
     (let mask1 = (case mask_v of
                     None \<Rightarrow> np_where (\<lambda>v. v \<noteq> 0) (x_col tracks)
                   | Some m \<Rightarrow> m)
      in
      bind (take_mask (z_col tracks) mask1) (\<lambda>zs.
      bind (np_min zs) (\<lambda>z_min.
      bind (np_max zs) (\<lambda>z_max.
      bind (take_mask (x_col tracks) mask1) (\<lambda>xs.
      bind (take_mask (y_col tracks) mask1) (\<lambda>ys.
      let thetas = map (\<lambda>(xv, yv). angle xv yv) (zip xs ys) in
      bind (np_min thetas) (\<lambda>theta_min.
      bind (np_max thetas) (\<lambda>theta_max.
      bind (linspace z_min z_max (z_int + 1)) (\<lambda>z_axis.
      bind (linspace theta_min theta_max (theta_int + 1)) (\<lambda>theta_axis.
        Inr (z_axis, theta_axis)))))))))))"

text \<open>\<open>np.intersect1d\<close> of two index arrays: the common values, sorted, each once.\<close>

definition intersect1d :: "nat list \<Rightarrow> nat list \<Rightarrow> nat list" where
  "intersect1d ar1 ar2 = sort (remdups (filter (\<lambda>i. i \<in> set ar2) ar1))"

text \<open>
  \<open>np.zeros((z_int, theta_int))\<close>: ValueError for a negative dimension, and for an array
  too big to address (the product of the non-zero dimensions and the 8 bytes of an item
  must fit a signed 64-bit size).
\<close>

definition zeros :: "int \<Rightarrow> int \<Rightarrow> error + real list list" where
  "zeros m n =
     (if m < 0 \<or> n < 0 \<or> 2 ^ 63 \<le> (if m = 0 then 1 else m) * (if n = 0 then 1 else n) * 8
      then Inl ValueError_zeros
      else Inr (replicate (nat m) (replicate (nat n) 0)))"

text \<open>
  An index into an axis of length \<open>n\<close>: a negative index counts from the end, an index
  outside \<open>[-n, n)\<close> raises IndexError.
\<close>

definition wrap_index :: "int \<Rightarrow> nat \<Rightarrow> error + nat" where
  "wrap_index i n =
     (if - int n \<le> i \<and> i < int n then Inr (nat (if i < 0 then i + int n else i))
      else Inl IndexError)"

definition add_cell :: "real list list \<Rightarrow> int \<Rightarrow> int \<Rightarrow> real \<Rightarrow> error + real list list" where
  "add_cell grid i j w =
     bind (wrap_index i (length grid)) (\<lambda>r.
     bind (wrap_index j (length (grid ! r))) (\<lambda>k.
       Inr (grid[r := (grid ! r)[k := grid ! r ! k + w]])))"

text \<open>
  \<open>np.add.at(grid, (z_idx, theta_idx), values)\<close>: one unbuffered addition for each
  triple, so that a cell named twice is added to twice.
\<close>

fun add_at :: "real list list \<Rightarrow> (int \<times> int \<times> real) list \<Rightarrow> error + real list list" where
  "add_at grid [] = Inr grid"
| "add_at grid ((i, j, w) # rest) = bind (add_cell grid i j w) (\<lambda>grid1. add_at grid1 rest)"

text \<open>\<open>abs\<close> of an \<open>np.int64\<close>: the smallest value is its own negation.\<close>

definition abs_int64 :: "64 word \<Rightarrow> 64 word" where
  "abs_int64 n = (if sint n < 0 then - n else n)"

text \<open>
  The three in-place operations on a cell of \<open>grid_values\<close> (plotter.py:101-103);
  \<open>None\<close> is a cell that numpy leaves at inf or nan.
\<close>

definition float_of_int64 :: "64 word \<Rightarrow> real" where
  "float_of_int64 n = real_of_int (sint n)"

definition normalized :: "real \<Rightarrow> 64 word \<Rightarrow> real \<Rightarrow> real \<Rightarrow> real option" where
  "normalized area_v np1_v source_intensity val =
     Option.bind (true_divide val area_v) (\<lambda>v1.
     Option.bind (true_divide v1 (float_of_int64 (abs_int64 np1_v))) (\<lambda>v2.
       Some (v2 * source_intensity)))"

text \<open>
  What the two figures show and what is printed: the two grids, the extent of the images,
  the area of a cell and the resolution. The model of \<open>generate_figures_current_cyl\<close>
  is its aggregation, plotter.py:78-105, and returns these values; the statements after
  them, which draw the two images with matplotlib and choose the bounds of the colour
  scale from \<open>value_range\<close> or from the largest cell, are not modelled.
\<close>

record figures =
  grid_values :: "real option list list"
  error_grid :: "real list list"
  extent :: "real list"
  area :: real
  resolution :: "real \<times> real"

definition generate_figures_current_cyl ::
  "parameters \<Rightarrow> track list \<Rightarrow> string \<Rightarrow> int \<Rightarrow> int \<Rightarrow> real \<Rightarrow> nat list option
     \<Rightarrow> error + figures" where
  "generate_figures_current_cyl p tracks particle z_int theta_int source_intensity mask_v =
     bind (get_particle_mask tracks particle) (\<lambda>particle_mask0.
     let particle_mask = (case mask_v of
                            None \<Rightarrow> particle_mask0
                          | Some m \<Rightarrow> intersect1d particle_mask0 m)
     in
     bind (calculate_grid_axes_cyl tracks z_int theta_int (Some particle_mask))
       (\<lambda>(z_axis, theta_axis).
     bind (zeros z_int theta_int) (\<lambda>grid_values0.
     bind (zeros z_int theta_int) (\<lambda>error_grid0.
     bind (take_mask (z_col tracks) particle_mask) (\<lambda>zs.
     bind (closest z_axis zs) (\<lambda>z_idx.
     bind (take_mask (x_col tracks) particle_mask) (\<lambda>xs.
     bind (take_mask (y_col tracks) particle_mask) (\<lambda>ys.
     let thetas = map (\<lambda>(xv, yv). angle xv yv) (zip xs ys) in
     bind (closest theta_axis thetas) (\<lambda>theta_idx.
     bind (take_mask (wgt tracks) particle_mask) (\<lambda>ws.
     bind (add_at grid_values0 (zip z_idx (zip theta_idx ws))) (\<lambda>grid_values1.
     bind (add_at error_grid0 (zip z_idx (zip theta_idx (map (\<lambda>_. 1) z_idx))))
       (\<lambda>error_grid1.
     bind (item_0 (x_col tracks)) (\<lambda>x0.
     bind (item_0 (y_col tracks)) (\<lambda>y0.
     let radius = linalg_norm [x0, y0];
         extent_v = [radius * theta_axis ! 0, radius * last theta_axis,
                     z_axis ! 0, last z_axis];
         area_v = \<bar>radius * (theta_axis ! 1 - theta_axis ! 0) * (z_axis ! 1 - z_axis ! 0)\<bar>
     in
       Inr \<lparr>grid_values = map (map (normalized area_v (np1 p) source_intensity)) grid_values1,
            error_grid = map (map (\<lambda>n. 1 / sqrt (if n = 0 then 1 else n))) error_grid1,
            extent = extent_v,
            area = area_v,
            resolution = (radius * (theta_axis ! 1 - theta_axis ! 0),
                          z_axis ! 1 - z_axis ! 0)\<rparr>))))))))))))))"

text \<open>
  \<open>plot_current_cyl\<close> builds the geometric mask and calls the binner. \<open>mask\<close> starts as
  \<open>None\<close> and only the axial filter gives it a first value. With the perimeter filter
  alone, \<open>np.intersect1d(None, mask1)\<close> sorts an object array that holds \<open>None\<close> and the
  indices of \<open>mask1\<close>: TypeError as soon as \<open>mask1\<close> has an index. When \<open>mask1\<close> is empty
  the result is an empty array of dtype object, it stays so through the next two
  intersections, and after the particle mask is found \<open>z[mask]\<close> raises IndexError, as
  an index array must be of integers.
\<close>

definition plot_current_cyl ::
  "parameters \<Rightarrow> track list \<Rightarrow> string \<Rightarrow> int \<Rightarrow> int \<Rightarrow> real
     \<Rightarrow> (real \<times> real) option \<Rightarrow> (real \<times> real) option \<Rightarrow> error + figures" where
  "plot_current_cyl p tracks particle z_int theta_int source_intensity x_range z_range =
     (let mask_v = (case z_range of
                    None \<Rightarrow> None
                  | Some (z_lo, z_hi) \<Rightarrow>
                      Some (intersect1d (np_where (\<lambda>v. v > z_lo) (z_col tracks))
                                        (np_where (\<lambda>v. v < z_hi) (z_col tracks))))
      in
      case x_range of
        None \<Rightarrow>
          generate_figures_current_cyl p tracks particle z_int theta_int source_intensity mask_v
      | Some (x_lo, x_hi) \<Rightarrow>
          (let thetas = map (\<lambda>t. angle (t_x t) (t_y t)) tracks in
           bind (item_0 (x_col tracks)) (\<lambda>x0.
           bind (item_0 (y_col tracks)) (\<lambda>y0.
           let radius = linalg_norm [x0, y0];
               x_values = map (\<lambda>th. radius * th) thetas;
               mask1 = np_where (\<lambda>v. v > x_lo) x_values;
               mask2 = np_where (\<lambda>v. v < x_hi) x_values
           in
           case mask_v of
             None \<Rightarrow>
               if mask1 \<noteq> [] then Inl TypeError
               else bind (get_particle_mask tracks particle) (\<lambda>_. Inl IndexError)
           | Some m \<Rightarrow>
               generate_figures_current_cyl p tracks particle z_int theta_int source_intensity
                 (Some (intersect1d (intersect1d m mask1) mask2))))))"

section \<open>Predicates and sums used in the statements\<close>

text \<open>
  A framed record at the head of \<open>file\<close> whose two length markers can both be read and
  differ: the 4-byte prefix \<open>n1\<close> is not negative, \<open>n1\<close> bytes and a 4-byte suffix
  follow it, and the suffix is not \<open>n1\<close>.
\<close>

definition frame_mismatch :: "byte list \<Rightarrow> bool" where
  "frame_mismatch file =
     (4 \<le> length file \<and> 0 \<le> sint (int32 (take 4 file))
      \<and> 8 + nat (sint (int32 (take 4 file))) \<le> length file
      \<and> int32 (take 4 (drop (4 + nat (sint (int32 (take 4 file)))) file))
          \<noteq> int32 (take 4 file))"



text \<open>
  What the header decoder asks of the payload of each record before it reads the next
  one: the identification is UTF-8 and holds the signature; the count record has its 32
  bytes, \<open>nrcd = 11\<close> and \<open>np1 < 0\<close>; the flags record has its 12 bytes; a surface record has
  its 16 bytes and a whole number of 4-byte parameters after them.
\<close>

definition identification_ok :: "byte list \<Rightarrow> bool" where
  "identification_ok data =
     (case decode_UTF8 data of None \<Rightarrow> False | Some text \<Rightarrow> str_in d1suned text)"

definition counts_ok :: "byte list \<Rightarrow> bool" where
  "counts_ok data =
     (32 \<le> length data \<and> int32 (take 4 (drop 16 data)) = 11
      \<and> sint (int64 (take 8 (drop 0 data))) < 0)"

definition flags_ok :: "byte list \<Rightarrow> bool" where
  "flags_ok data = (12 \<le> length data)"

definition surface_ok :: "byte list \<Rightarrow> bool" where
  "surface_ok data = (16 \<le> length data \<and> (length data - 16) mod 4 = 0)"

text \<open>
  The header decoder, given a file that begins with the well-framed records \<open>ds\<close>, reads
  one more record after them: it has accepted each of them, and they are at most the
  identification, the counts, the flags and the \<open>njsw\<close> surface records that the count
  record declares. The record after the last surface is the first extension record or the
  summary record.
\<close>

fun reads_after :: "byte list list \<Rightarrow> bool" where
  "reads_after [] = True"
| "reads_after [d1] = identification_ok d1"
| "reads_after [d1, d2] = (identification_ok d1 \<and> counts_ok d2)"
| "reads_after (d1 # d2 # d3 # ds) =
     (identification_ok d1 \<and> counts_ok d2 \<and> flags_ok d3
      \<and> length ds \<le> nat (sint (int32 (take 4 (drop 20 d2))))
      \<and> (\<forall>d \<in> set ds. surface_ok d))"

text \<open>
  The records of a header that decodes: the identification, the counts, the flags, the
  \<open>njsw\<close> surface records and the summary record, each accepted, with no extension record
  to read (the 32-bit sum \<open>njsw + niwr\<close> is not above \<open>njsw\<close>). The payload of the summary
  record is free.
\<close>

fun header_complete :: "byte list list \<Rightarrow> bool" where
  "header_complete (d1 # d2 # d3 # ds) =
     (identification_ok d1 \<and> counts_ok d2 \<and> flags_ok d3
      \<and> length ds = nat (sint (int32 (take 4 (drop 20 d2)))) + 1
      \<and> (\<forall>d \<in> set (butlast ds). surface_ok d)
      \<and> \<not> sint (int32 (take 4 (drop 20 d2)))
            < sint (int32 (take 4 (drop 20 d2)) + int32 (take 4 (drop 0 d3))))"
| "header_complete _ = False"

text \<open>The sum over all the cells of a grid.\<close>

definition sum_grid :: "real list list \<Rightarrow> real" where
  "sum_grid grid = sum_list (map sum_list grid)"

section \<open>Example inputs\<close>

text \<open>
  A file that ends after its header: the identification \<open>d1suned\<close>, then
  \<open>np1 = -1\<close>, \<open>nrss = 5\<close>, \<open>nrcd = 11\<close>, \<open>njsw = 1\<close>, \<open>niss = 0\<close>, then
  \<open>niwr = 0\<close>, \<open>mipts = 2\<close>, \<open>kjaq = 0\<close>, one surface record of 16 bytes that
  declares 4 parameters, and an empty summary record.
\<close>

definition header_bytes :: "byte list" where
  "header_bytes =
     [7, 0, 0, 0] @ [100, 49, 115, 117, 110, 101, 100] @ [7, 0, 0, 0]
   @ [32, 0, 0, 0] @ [255, 255, 255, 255, 255, 255, 255, 255] @ [5, 0, 0, 0, 0, 0, 0, 0]
       @ [11, 0, 0, 0] @ [1, 0, 0, 0] @ [0, 0, 0, 0, 0, 0, 0, 0] @ [32, 0, 0, 0]
   @ [12, 0, 0, 0] @ [0, 0, 0, 0] @ [2, 0, 0, 0] @ [0, 0, 0, 0] @ [12, 0, 0, 0]
   @ [16, 0, 0, 0] @ [9, 0, 0, 0] @ [0, 0, 0, 0] @ [3, 0, 0, 0] @ [4, 0, 0, 0] @ [16, 0, 0, 0]
   @ [0, 0, 0, 0] @ [0, 0, 0, 0]"

definition header_parameters :: parameters where
  "header_parameters =
     \<lparr>np1 = - 1, nrss = 5, nrcd = 11, njsw = 1, niss = 0, niwr = 0, mipts = 2, kjaq = 0,
      surfaces = [\<lparr>surf_id = 9, surf_info = - 1, surf_type = 3, num_params = 4,
                   params = []\<rparr>]\<rparr>"

text \<open>One track record of 96 bytes; its 11 doubles have the bit patterns 1 to 11.\<close>

definition track_bytes :: "byte list" where
  "track_bytes =
     [88, 0, 0, 0]
   @ [1, 0, 0, 0, 0, 0, 0, 0] @ [2, 0, 0, 0, 0, 0, 0, 0] @ [3, 0, 0, 0, 0, 0, 0, 0]
   @ [4, 0, 0, 0, 0, 0, 0, 0] @ [5, 0, 0, 0, 0, 0, 0, 0] @ [6, 0, 0, 0, 0, 0, 0, 0]
   @ [7, 0, 0, 0, 0, 0, 0, 0] @ [8, 0, 0, 0, 0, 0, 0, 0] @ [9, 0, 0, 0, 0, 0, 0, 0]
   @ [10, 0, 0, 0, 0, 0, 0, 0] @ [11, 0, 0, 0, 0, 0, 0, 0]
   @ [88, 0, 0, 0]"

text \<open>
  The same header with \<open>niwr = 2147483647\<close>, the largest \<open>np.int32\<close>, and no extension
  record.
\<close>

definition header_bytes_niwr :: "byte list" where
  "header_bytes_niwr =
     [7, 0, 0, 0] @ [100, 49, 115, 117, 110, 101, 100] @ [7, 0, 0, 0]
   @ [32, 0, 0, 0] @ [255, 255, 255, 255, 255, 255, 255, 255] @ [5, 0, 0, 0, 0, 0, 0, 0]
       @ [11, 0, 0, 0] @ [1, 0, 0, 0] @ [0, 0, 0, 0, 0, 0, 0, 0] @ [32, 0, 0, 0]
   @ [12, 0, 0, 0] @ [255, 255, 255, 127] @ [2, 0, 0, 0] @ [0, 0, 0, 0] @ [12, 0, 0, 0]
   @ [16, 0, 0, 0] @ [9, 0, 0, 0] @ [0, 0, 0, 0] @ [3, 0, 0, 0] @ [4, 0, 0, 0] @ [16, 0, 0, 0]
   @ [0, 0, 0, 0] @ [0, 0, 0, 0]"





text \<open>A neutron track of weight \<open>w\<close> at the position \<open>(xv, yv, zv)\<close>.\<close>

definition track_at :: "real \<Rightarrow> real \<Rightarrow> real \<Rightarrow> real \<Rightarrow> track" where
  "track_at xv yv zv w =
     \<lparr>t_a = 1, t_b = 8, t_wgt = w, t_erg = 1, t_tme = 0, t_x = xv, t_y = yv, t_z = zv,
      t_u = 0, t_v = 0, t_c = 9\<rparr>"

text \<open>Two tracks on the cylinder of radius 1, at the angles 0 and \<open>\<pi>/2\<close>.\<close>

definition two_tracks :: "track list" where
  "two_tracks = [track_at 1 0 0 1, track_at 0 1 1 2]"

definition one_track :: "track list" where
  "one_track = [track_at 1 0 0 1]"


section \<open>Sequencing\<close>

lemma bind_Inr_iff: "bind m f = Inr v \<longleftrightarrow> (\<exists>x. m = Inr x \<and> f x = Inr v)"
  by (cases m) (simp_all add: bind_def)



section \<open>The reader: framing, header and track table\<close>

lemma length_chunks: "length (chunks n xs) = length xs div n"
  by (simp add: chunks_def)

lemma chunks_elem_length:
  assumes "ys \<in> set (chunks n xs)"
  shows "length ys = n"
proof -
  from assms obtain i where i: "i < length xs div n" and ys: "ys = take n (drop (i * n) xs)"
    by (auto simp: chunks_def)
  have "Suc i * n \<le> (length xs div n) * n"
    using i by (intro mult_le_mono1) simp
  also have "\<dots> \<le> length xs"
    by simp
  finally have "i * n + n \<le> length xs"
    by simp
  then show ?thesis
    using ys by simp
qed

lemma length_concat_const:
  "(\<forall>r \<in> set rows. length (f r) = k) \<Longrightarrow> length (concat (map f rows)) = k * length rows"
  by (induction rows) simp_all

subsection \<open>One framed record\<close>

lemma read_fortran_record_Inr:
  assumes "read_fortran_record f0 = Inr (data, f1)"
  shows "8 + length data \<le> length f0 \<and> data = take (length data) (drop 4 f0)
         \<and> f1 = drop (8 + length data) f0
         \<and> sint (int32 (take 4 f0)) = int (length data)"
proof -
  let ?c = "int32 (take 4 f0)"
  from assms have len: "4 \<le> length f0"
    by (auto simp: read_fortran_record_def bind_Inr_iff fromfile_int32_0_def split: if_splits)
  obtain d f2 where fb: "fromfile_byte (drop 4 f0) (sint ?c) = (d, f2)"
    by (cases "fromfile_byte (drop 4 f0) (sint ?c)")
  from assms len fb have r: "4 \<le> length f2" "d = data" "f1 = drop 4 f2"
    by (auto simp: read_fortran_record_def bind_Inr_iff fromfile_int32_0_def split: if_splits)
  show ?thesis
  proof (cases "sint ?c < 0")
    case True
    with fb have "f2 = []"
      by (simp add: fromfile_byte_def)
    with r show ?thesis
      by simp
  next
    case False
    with fb have d: "d = take (nat (sint ?c)) (drop 4 f0)"
      and f2: "f2 = drop (nat (sint ?c)) (drop 4 f0)"
      by (simp_all add: fromfile_byte_def)
    from r f2 have l: "4 + nat (sint ?c) + 4 \<le> length f0"
      by simp
    with d r have ld: "length data = nat (sint ?c)"
      by simp
    with d r f2 l False show ?thesis
      by (simp add: add.commute)
  qed
qed

lemma read_fortran_record_drop:
  "read_fortran_record f0 = Inr (data, f1) \<Longrightarrow> \<exists>k. f1 = drop k f0"
  using read_fortran_record_Inr by blast

lemma read_fortran_record_mismatch:
  "read_fortran_record f0 = Inl ValueError_record \<longleftrightarrow> frame_mismatch f0"
  by (auto simp: read_fortran_record_def frame_mismatch_def bind_def fromfile_int32_0_def
      fromfile_byte_def add.commute split: if_splits)


subsection \<open>The surfaces\<close>

lemma frombuffer_int32_all_Inr:
  "frombuffer_int32_all data off = Inr ps \<Longrightarrow> off + 4 * length ps = length data"
  by (auto simp: frombuffer_int32_all_def length_chunks split: if_splits)

lemma read_surface_Inr:
  assumes "read_surface data k = Inr s"
  shows "16 + 4 * length (params s) = length data
         \<and> num_params s = int32 (take 4 (drop 12 data))"
  using assms
  by (auto simp: read_surface_def bind_Inr_iff frombuffer_int32_0_def
      dest!: frombuffer_int32_all_Inr split: if_splits)

lemma read_surfaces_Inr:
  "read_surfaces n k f0 = Inr (ss, fz) \<Longrightarrow>
     length ss = n \<and> (\<exists>j. fz = drop j f0) \<and>
     (\<forall>s \<in> set ss. \<exists>j data f2. read_fortran_record (drop j f0) = Inr (data, f2)
                                  \<and> read_surface data k = Inr s)"
proof (induction n arbitrary: f0 ss fz)
  case 0
  then show ?case
    by (auto intro: exI [of _ 0])
next
  case (Suc n)
  from Suc.prems obtain data f1 s ss' where
    r: "read_fortran_record f0 = Inr (data, f1)" and
    s: "read_surface data k = Inr s" and
    rest: "read_surfaces n k f1 = Inr (ss', fz)" and
    ss: "ss = s # ss'"
    by (auto simp: bind_Inr_iff)
  from r obtain j0 where j0: "f1 = drop j0 f0"
    using read_fortran_record_drop by blast
  from Suc.IH [OF rest] have
    ih1: "length ss' = n" and ih2: "\<exists>j. fz = drop j f1" and
    ih3: "\<forall>s \<in> set ss'. \<exists>j data f2. read_fortran_record (drop j f1) = Inr (data, f2)
                                  \<and> read_surface data k = Inr s"
    by blast+
  have a: "length ss = Suc n"
    using ss ih1 by simp
  have b: "\<exists>j. fz = drop j f0"
    using ih2 j0 by auto
  have c: "\<exists>j data f2. read_fortran_record (drop j f0) = Inr (data, f2)
                        \<and> read_surface data k = Inr t" if "t \<in> set ss" for t
  proof (cases "t = s")
    case True
    then show ?thesis
      using r s by (intro exI [of _ 0]) auto
  next
    case False
    with that ss have "t \<in> set ss'"
      by simp
    with ih3 obtain j data' f2 where "read_fortran_record (drop j f1) = Inr (data', f2)"
      "read_surface data' k = Inr t"
      by blast
    then show ?thesis
      using j0 by (intro exI [of _ "j0 + j"]) (auto simp: add.commute)
  qed
  from a b c show ?case
    by blast
qed

subsection \<open>A decoded header\<close>

lemma read_header_Inr:
  assumes "read_header f0 = Inr (p, rest)"
  shows "length (surfaces p) = nat (sint (njsw p))"
    and "\<exists>j. rest = drop j f0"
    and "\<forall>s \<in> set (surfaces p). \<exists>j data f2.
           read_fortran_record (drop j f0) = Inr (data, f2)
           \<and> read_surface data (kjaq p) = Inr s"
    and "nrcd p = 11" and "sint (np1 p) < 0"
    and "\<not> sint (njsw p) < sint (njsw p + niwr p)"
proof -
  from assms obtain d1 f1 d2 f2 d3 f3 ss f4 d5 where
    r1: "read_fortran_record f0 = Inr (d1, f1)" and
    r2: "read_fortran_record f1 = Inr (d2, f2)" and
    r3: "read_fortran_record f2 = Inr (d3, f3)" and
    r4: "read_surfaces (nat (sint (njsw p))) (kjaq p) f3 = Inr (ss, f4)" and
    r5: "read_fortran_record f4 = Inr (d5, rest)" and
    ss: "surfaces p = ss" and
    c: "nrcd p = 11" "sint (np1 p) < 0" "\<not> sint (njsw p) < sint (njsw p + niwr p)"
    unfolding read_header_def
    by (auto simp: bind_Inr_iff split: option.splits if_splits)
  from r1 obtain k1 where k1: "f1 = drop k1 f0"
    using read_fortran_record_drop by blast
  from r2 obtain k2 where k2: "f2 = drop k2 f1"
    using read_fortran_record_drop by blast
  from r3 obtain k3 where k3: "f3 = drop k3 f2"
    using read_fortran_record_drop by blast
  from read_surfaces_Inr [OF r4] obtain k4 where
    l: "length ss = nat (sint (njsw p))" and k4: "f4 = drop k4 f3" and
    a: "\<forall>s \<in> set ss. \<exists>j data f2. read_fortran_record (drop j f3) = Inr (data, f2)
                                  \<and> read_surface data (kjaq p) = Inr s"
    by blast
  from r5 obtain k5 where k5: "rest = drop k5 f4"
    using read_fortran_record_drop by blast
  have f3: "f3 = drop (k1 + k2 + k3) f0"
    using k1 k2 k3 by (simp add: add.commute add.left_commute)
  show "length (surfaces p) = nat (sint (njsw p))"
    using l ss by simp
  show "\<exists>j. rest = drop j f0"
    using k5 k4 f3 by auto
  show "\<forall>s \<in> set (surfaces p). \<exists>j data f2.
           read_fortran_record (drop j f0) = Inr (data, f2)
           \<and> read_surface data (kjaq p) = Inr s"
  proof
    fix s assume "s \<in> set (surfaces p)"
    with a ss obtain j data g where "read_fortran_record (drop j f3) = Inr (data, g)"
      "read_surface data (kjaq p) = Inr s"
      by blast
    then show "\<exists>j data f2. read_fortran_record (drop j f0) = Inr (data, f2)
                           \<and> read_surface data (kjaq p) = Inr s"
      using f3 by (intro exI [of _ "k1 + k2 + k3 + j"]) (auto simp: add.commute)
  qed
  show "nrcd p = 11" "sint (np1 p) < 0" "\<not> sint (njsw p) < sint (njsw p + niwr p)"
    using c by auto
qed

subsection \<open>The errors of the decoding steps\<close>




subsection \<open>The track table\<close>

lemma length_track_payload:
  "length (concat (map (\<lambda>row. take 88 (drop 4 row)) (chunks 96 f0))) = 88 * (length f0 div 96)"
proof -
  have "\<forall>r \<in> set (chunks 96 f0). length (take 88 (drop 4 r)) = 88"
    by (auto dest!: chunks_elem_length)
  then show ?thesis
    using length_concat_const [of "chunks 96 f0" "\<lambda>row. take 88 (drop 4 row)" 88]
    by (simp add: length_chunks)
qed

lemma read_tracks_Inr:
  assumes "read_tracks f0 = Inr tracks"
  shows "96 * length tracks = length f0 \<and> (\<forall>row \<in> set tracks. length row = 11)"
proof -
  let ?flat = "concat (map (\<lambda>row. take 88 (drop 4 row)) (chunks 96 f0))"
  from assms have m: "length f0 mod 96 = 0"
    by (auto simp: read_tracks_def reshape_def bind_Inr_iff split: if_splits)
  from assms m have t: "tracks = chunks 11 (map float64 (chunks 8 ?flat))"
    by (auto simp: read_tracks_def reshape_def bind_Inr_iff frombuffer_float64_all_def
        length_track_payload split: if_splits)
  have "length tracks = length f0 div 96"
    unfolding t length_chunks length_map length_track_payload by simp
  with m have "96 * length tracks = length f0"
    by auto
  moreover have "\<forall>row \<in> set tracks. length row = 11"
    unfolding t by (auto dest!: chunks_elem_length)
  ultimately show ?thesis
    by simp
qed


subsection \<open>The example files\<close>

lemmas reader_defs =
  read_rssa_def read_header_def read_fortran_record_def bind_def fromfile_int32_0_def
  fromfile_byte_def int32_def int64_def float64_def cont_def low_def d1suned_def
  frombuffer_int32_0_def frombuffer_int64_0_def frombuffer_int32_all_def read_surface_def
  read_tracks_def reshape_def chunks_def frombuffer_float64_all_def

lemma read_header_header_bytes: "read_header header_bytes = Inr (header_parameters, [])"
  by (simp add: header_bytes_def header_parameters_def reader_defs)

lemma read_header_with_track:
  "read_header (header_bytes @ track_bytes) = Inr (header_parameters, track_bytes)"
  by (simp add: header_bytes_def header_parameters_def track_bytes_def reader_defs)

lemma read_tracks_track_bytes:
  "read_tracks track_bytes = Inr [[1, 2, 3, 4, 5, 6, 7, 8, 9, 10, 11]]"
  by (simp add: track_bytes_def reader_defs upt_rec)

section \<open>The reader: which records the header decoder reads\<close>

subsection \<open>Well-framed records\<close>



lemma mismatch_not_framed:
  "frame_mismatch f0 \<Longrightarrow> read_fortran_record f0 = Inr (d, f1) \<Longrightarrow> False"
  using read_fortran_record_mismatch [of f0] by simp


subsection \<open>The surface records\<close>






subsection \<open>The header, record by record\<close>









subsection \<open>The frame error of the header decoder\<close>





lemma reads_after_flags: "reads_after (d1 # d2 # d3 # ds) \<Longrightarrow> flags_ok d3"
  by simp


subsection \<open>A header that decodes\<close>





lemma header_success_1: "read_fortran_record f0 = Inl e \<Longrightarrow> read_header f0 \<noteq> Inr r"
  by (simp add: read_header_def bind_def)




lemma header_complete_3:
  "header_complete (d1 # d2 # ds) \<Longrightarrow> ds \<noteq> []"
  by (cases "(d1 # d2 # ds)" rule: header_complete.cases) simp_all




subsection \<open>The example files, record by record\<close>







subsection \<open>The claims about the reader\<close>

text \<open>
  Claim C1, as the code has it. When a file loads, the track table has one row for each
  96 bytes that follow the header, and every row has exactly 11 fields. The number of rows
  is the length of the tail divided by 96; it is not compared with the header's \<open>nrss\<close>.
\<close>

theorem read_rssa_table_shape:
  "read_rssa f0 = Inr (p, tracks) \<Longrightarrow>
     \<exists>tail. read_header f0 = Inr (p, tail) \<and> 96 * length tracks = length tail
            \<and> (\<forall>row \<in> set tracks. length row = 11)"
  by (auto simp: read_rssa_def bind_Inr_iff dest: read_tracks_Inr)

theorem read_rssa_table_shape_witness:
  "read_rssa (header_bytes @ track_bytes)
     = Inr (header_parameters, [[1, 2, 3, 4, 5, 6, 7, 8, 9, 10, 11]])
   \<and> read_header (header_bytes @ track_bytes) = Inr (header_parameters, track_bytes)
   \<and> 96 * length [[1, 2, 3, 4, 5, 6, 7, 8, 9, 10, 11 :: 64 word]] = length track_bytes
   \<and> length [1, 2, 3, 4, 5, 6, 7, 8, 9, 10, 11 :: 64 word] = 11"
proof -
  have h: "read_rssa (header_bytes @ track_bytes)
            = Inr (header_parameters, [[1, 2, 3, 4, 5, 6, 7, 8, 9, 10, 11]])"
    by (simp add: read_rssa_def read_header_with_track read_tracks_track_bytes bind_def)
  from read_rssa_table_shape [OF h] h show ?thesis
    by (auto simp: read_header_with_track)
qed

text \<open>
  Claim C1, as stated, fails: this file loads, its header records \<open>nrss = 5\<close> tracks, and
  its track table has no row.
\<close>

theorem read_rssa_nrss_counterexample:
  "read_rssa header_bytes = Inr (header_parameters, []) \<and> nrss header_parameters = 5"
  by (simp add: read_rssa_def read_header_header_bytes read_tracks_def reshape_def
      frombuffer_float64_all_def chunks_def bind_def header_parameters_def)

text \<open>
  Claim C4, as the code has it. A decoded header has exactly \<open>njsw\<close> surface descriptors
  when \<open>njsw\<close> is not negative, and none when it is. Each descriptor was decoded from a
  framed record of the file, and its parameter list holds every 4-byte value from byte 16
  to the end of that record: its length is the record's length less 16, divided by 4,
  whatever \<open>num_params\<close> the record declares.
\<close>

theorem read_header_surfaces:
  "read_header f0 = Inr (p, rest) \<Longrightarrow>
     length (surfaces p) = nat (sint (njsw p)) \<and>
     (\<forall>s \<in> set (surfaces p). \<exists>j data f2.
        read_fortran_record (drop j f0) = Inr (data, f2)
        \<and> read_surface data (kjaq p) = Inr s
        \<and> 16 + 4 * length (params s) = length data)"
  using read_header_Inr(1,3) [of f0 p rest] read_surface_Inr
  by (metis (no_types, lifting))

theorem read_header_surfaces_witness:
  "read_header header_bytes = Inr (header_parameters, [])
   \<and> length (surfaces header_parameters) = nat (sint (njsw header_parameters))
   \<and> (\<exists>j data f2.
        read_fortran_record (drop j header_bytes) = Inr (data, f2)
        \<and> read_surface data (kjaq header_parameters)
            = Inr \<lparr>surf_id = 9, surf_info = - 1, surf_type = 3, num_params = 4, params = []\<rparr>
        \<and> 16 + 4 * length ([] :: 32 word list) = length data)"
  using read_header_surfaces [OF read_header_header_bytes] read_header_header_bytes
  by (simp add: header_parameters_def)

text \<open>
  Claim C4, as stated, fails: the one surface record of this header declares
  \<open>num_params = 4\<close> and the decoded parameter list is empty.
\<close>

theorem read_header_num_params_counterexample:
  "read_header header_bytes =
     Inr (\<lparr>np1 = - 1, nrss = 5, nrcd = 11, njsw = 1, niss = 0, niwr = 0, mipts = 2, kjaq = 0,
           surfaces = [\<lparr>surf_id = 9, surf_info = - 1, surf_type = 3, num_params = 4,
                        params = []\<rparr>]\<rparr>, [])"
  by (simp add: header_bytes_def reader_defs)




text \<open>
  Claim C7 at a header with \<open>njsw = 1\<close> and \<open>niwr = 2147483647\<close>: the 32-bit sum
  \<open>njsw + niwr\<close> wraps to a negative number, \<open>range(njsw, njsw + niwr)\<close> is empty, and
  the header is returned although it declares extension records.
\<close>

theorem read_header_niwr_wraps:
  "read_header header_bytes_niwr =
     Inr (\<lparr>np1 = - 1, nrss = 5, nrcd = 11, njsw = 1, niss = 0, niwr = 2147483647, mipts = 2,
           kjaq = 0,
           surfaces = [\<lparr>surf_id = 9, surf_info = - 1, surf_type = 3, num_params = 4,
                        params = []\<rparr>]\<rparr>, [])"
  by (simp add: header_bytes_niwr_def reader_defs)

section \<open>The binner: accumulation and normalisation\<close>

lemma sum_list_update_real:
  "k < length xs \<Longrightarrow> sum_list (xs[k := v]) = sum_list xs - xs ! k + (v :: real)"
  by (induction xs arbitrary: k) (auto split: nat.splits)

lemma sum_grid_update:
  assumes "r < length grid" "k < length (grid ! r)"
  shows "sum_grid (grid[r := (grid ! r)[k := grid ! r ! k + w]]) = sum_grid grid + w"
proof -
  have "sum_grid (grid[r := (grid ! r)[k := grid ! r ! k + w]])
        = sum_list ((map sum_list grid)[r := sum_list ((grid ! r)[k := grid ! r ! k + w])])"
    by (simp add: sum_grid_def map_update)
  also have "\<dots> = sum_list (map sum_list grid) - sum_list (grid ! r)
                  + sum_list ((grid ! r)[k := grid ! r ! k + w])"
    using assms by (simp add: sum_list_update_real)
  also have "\<dots> = sum_grid grid + w"
    using assms by (simp add: sum_list_update_real sum_grid_def)
  finally show ?thesis .
qed

lemma wrap_index_Inr: "wrap_index i n = Inr r \<Longrightarrow> r < n"
  by (auto simp: wrap_index_def split: if_splits)

lemma add_cell_sum:
  "add_cell grid i j w = Inr grid1 \<Longrightarrow> sum_grid grid1 = sum_grid grid + w"
  by (auto simp: add_cell_def bind_Inr_iff sum_grid_update dest!: wrap_index_Inr)

lemma add_at_sum:
  "add_at grid ts = Inr grid1 \<Longrightarrow>
     sum_grid grid1 = sum_grid grid + sum_list (map (\<lambda>(i, j, w). w) ts)"
proof (induction ts arbitrary: grid)
  case Nil
  then show ?case by simp
next
  case (Cons t ts)
  obtain i j w where t: "t = (i, j, w)" by (cases t)
  from Cons.prems t obtain g where g: "add_cell grid i j w = Inr g" and r: "add_at g ts = Inr grid1"
    by (auto simp: bind_Inr_iff)
  from Cons.IH [OF r] add_cell_sum [OF g] t show ?case by simp
qed

lemma sum_grid_zeros: "zeros m n = Inr grid \<Longrightarrow> sum_grid grid = 0"
  by (auto simp: zeros_def sum_grid_def sum_list_replicate split: if_splits)

lemma closest_length: "closest axis vs = Inr idx \<Longrightarrow> length idx = length vs \<and> 2 \<le> length axis"
  by (auto simp: closest_def Let_def split: if_splits)

lemma take_mask_length: "take_mask xs m = Inr ys \<Longrightarrow> length ys = length m \<and> ys = map (\<lambda>i. xs ! i) m"
  by (auto simp: take_mask_def split: if_splits)

lemma sum_weights_zip:
  "length is = length ws \<Longrightarrow> length js = length ws \<Longrightarrow>
     sum_list (map (\<lambda>(i, j, w). w) (zip is (zip js ws))) = sum_list ws"
proof (induction ws arbitrary: "is" js)
  case Nil
  then show ?case by simp
next
  case (Cons w ws)
  then obtain i is' j js' where "is = i # is'" "js = j # js'"
    by (cases "is"; cases js) auto
  with Cons show ?case by simp
qed

lemma generate_InrE:
  assumes "generate_figures_current_cyl p tracks particle z_int theta_int si mask_v = Inr out"
  obtains pm z_axis theta_axis g0 zs xs ys ws z_idx theta_idx g1 e1 x0 y0 where
    "get_particle_mask tracks particle = Inr pm"
    "calculate_grid_axes_cyl tracks z_int theta_int
       (Some (case mask_v of None \<Rightarrow> pm | Some m \<Rightarrow> intersect1d pm m)) = Inr (z_axis, theta_axis)"
    "zeros z_int theta_int = Inr g0"
    "take_mask (z_col tracks) (case mask_v of None \<Rightarrow> pm | Some m \<Rightarrow> intersect1d pm m) = Inr zs"
    "take_mask (x_col tracks) (case mask_v of None \<Rightarrow> pm | Some m \<Rightarrow> intersect1d pm m) = Inr xs"
    "take_mask (y_col tracks) (case mask_v of None \<Rightarrow> pm | Some m \<Rightarrow> intersect1d pm m) = Inr ys"
    "take_mask (wgt tracks) (case mask_v of None \<Rightarrow> pm | Some m \<Rightarrow> intersect1d pm m) = Inr ws"
    "closest z_axis zs = Inr z_idx"
    "closest theta_axis (map (\<lambda>(xv, yv). angle xv yv) (zip xs ys)) = Inr theta_idx"
    "add_at g0 (zip z_idx (zip theta_idx ws)) = Inr g1"
    "add_at g0 (zip z_idx (zip theta_idx (map (\<lambda>_. 1) z_idx))) = Inr e1"
    "item_0 (x_col tracks) = Inr x0" "item_0 (y_col tracks) = Inr y0"
    "out = \<lparr>grid_values =
              map (map (normalized
                  \<bar>linalg_norm [x0, y0] * (theta_axis ! 1 - theta_axis ! 0) * (z_axis ! 1 - z_axis ! 0)\<bar>
                  (np1 p) si)) g1,
            error_grid = map (map (\<lambda>n. 1 / sqrt (if n = 0 then 1 else n))) e1,
            extent = [linalg_norm [x0, y0] * theta_axis ! 0, linalg_norm [x0, y0] * last theta_axis,
                      z_axis ! 0, last z_axis],
            area = \<bar>linalg_norm [x0, y0] * (theta_axis ! 1 - theta_axis ! 0) * (z_axis ! 1 - z_axis ! 0)\<bar>,
            resolution = (linalg_norm [x0, y0] * (theta_axis ! 1 - theta_axis ! 0),
                          z_axis ! 1 - z_axis ! 0)\<rparr>"
  using assms unfolding generate_figures_current_cyl_def Let_def
  by (auto simp: bind_Inr_iff)

lemma abs_int64_real:
  assumes "- (2 ^ 63) < sint n"
  shows "float_of_int64 (abs_int64 n) = \<bar>float_of_int64 n\<bar>"
proof (cases "sint n < 0")
  case False
  then show ?thesis by (simp add: abs_int64_def float_of_int64_def del: of_int_sint)
next
  case True
  have "sint (- n) = signed_take_bit 63 (- sint n)"
    by (simp add: sint_word_ariths)
  also have "\<dots> = - sint n"
    using assms True by (intro signed_take_bit_int_eq_self) auto
  finally show ?thesis using True by (simp add: abs_int64_def float_of_int64_def del: of_int_sint)
qed

lemma normalized_Some:
  "area_v \<noteq> 0 \<Longrightarrow> float_of_int64 (abs_int64 n) \<noteq> 0 \<Longrightarrow>
     normalized area_v n si val = Some (val / area_v / float_of_int64 (abs_int64 n) * si)"
  by (simp add: normalized_def true_divide_def)

lemma sum_normalized_row:
  assumes "area_v \<noteq> 0" "float_of_int64 (abs_int64 n) \<noteq> 0" "si \<noteq> 0"
  shows "(\<Sum>v\<leftarrow>row. the (normalized area_v n si v) * area_v
              * float_of_int64 (abs_int64 n) / si) = sum_list row"
  using assms by (induction row) (simp_all add: normalized_Some)

lemma sum_normalized_grid:
  assumes "area_v \<noteq> 0" "float_of_int64 (abs_int64 n) \<noteq> 0" "si \<noteq> 0"
  shows "(\<Sum>row\<leftarrow>grid. \<Sum>v\<leftarrow>row. the (normalized area_v n si v) * area_v
              * float_of_int64 (abs_int64 n) / si) = sum_grid grid"
  using assms by (induction grid) (simp_all add: sum_normalized_row sum_grid_def)

subsection \<open>Axes and bin indices\<close>

lemma linspace_axis:
  assumes "1 \<le> n" and "linspace a b (n + 1) = Inr axis"
  shows "length axis = nat n + 1" and "axis ! 0 = a"
    and "axis ! 1 - axis ! 0 = (b - a) / real_of_int n" and "last axis = b"
proof -
  let ?f = "\<lambda>i. a + real i * ((b - a) / real_of_int n)"
  from assms have ax: "axis = map ?f [0..<nat n] @ [b]"
    by (auto simp: linspace_def nat_add_distrib split: if_splits)
  from assms(1) have n: "0 < nat n" by simp
  show "length axis = nat n + 1" by (simp add: ax)
  show "axis ! 0 = a" using n by (simp add: ax nth_append)
  show "last axis = b" by (simp add: ax)
  show "axis ! 1 - axis ! 0 = (b - a) / real_of_int n"
  proof (cases "nat n = 1")
    case True
    then have "n = 1" by simp
    then show ?thesis by (simp add: ax)
  next
    case False
    with n have "1 < nat n" by simp
    then show ?thesis by (simp add: ax nth_append)
  qed
qed

lemma np_min_Inr:
  assumes "np_min xs = Inr m"
  shows "m \<in> set xs \<and> (\<forall>v \<in> set xs. m \<le> v)"
proof -
  from assms have "xs \<noteq> []" and "m = Min (set xs)"
    by (cases xs; simp add: np_min_def Min.set_eq_fold [symmetric])+
  then show ?thesis
    using Min_in [of "set xs"] by auto
qed

lemma np_max_Inr:
  assumes "np_max xs = Inr m"
  shows "m \<in> set xs \<and> (\<forall>v \<in> set xs. v \<le> m)"
proof -
  from assms have "xs \<noteq> []" and "m = Max (set xs)"
    by (cases xs; simp add: np_max_def Max.set_eq_fold [symmetric])+
  then show ?thesis
    using Max_in [of "set xs"] by auto
qed

lemma np_min_nonempty: "xs \<noteq> [] \<Longrightarrow> \<exists>m. np_min xs = Inr m"
  by (cases xs) (auto simp: np_min_def)

lemma np_max_nonempty: "xs \<noteq> [] \<Longrightarrow> \<exists>m. np_max xs = Inr m"
  by (cases xs) (auto simp: np_max_def)

lemma closest_index:
  assumes n: "1 \<le> n" "n < 2 ^ 63" and ab: "a < b"
    and ax: "linspace a b (n + 1) = Inr axis"
    and cl: "closest axis vs = Inr idx"
    and k: "k < length vs" and v: "a \<le> vs ! k" "vs ! k \<le> b"
  shows "idx ! k = (if \<lfloor>(vs ! k - axis ! 0) / (axis ! 1 - axis ! 0)\<rfloor> = n then n - 1
                    else \<lfloor>(vs ! k - axis ! 0) / (axis ! 1 - axis ! 0)\<rfloor>)"
    and "0 \<le> idx ! k" and "idx ! k < n"
proof -
  note la = linspace_axis [OF n(1) ax]
  let ?lm = "axis ! 1 - axis ! 0"
  let ?q = "(vs ! k - axis ! 0) / ?lm"
  have lm: "0 < ?lm" using la(3) ab n(1) by simp
  have q0: "0 \<le> ?q" using lm v(1) la(2) by simp
  have "vs ! k - a \<le> real_of_int n * ?lm" using la(3) v(2) n(1) by simp
  then have qn: "?q \<le> real_of_int n" using lm la(2) by (simp add: pos_divide_le_eq)
  have f0: "0 \<le> \<lfloor>?q\<rfloor>" using q0 by simp
  have fn: "\<lfloor>?q\<rfloor> \<le> n" using qn by (simp add: floor_le_iff) 
  have "real_of_int n < 2 ^ 63"
    using n(2) by simp
  with qn have qu: "?q < 2 ^ 63"
    by linarith
  have cast: "astype_int (true_divide (vs ! k - axis ! 0) ?lm) = \<lfloor>?q\<rfloor>"
    using lm q0 qu by (simp add: astype_int_def true_divide_def Let_def)
  have len: "int (length axis) - 1 = n" using la(1) n(1) by simp
  from cl k have "idx ! k = (if astype_int (true_divide (vs ! k - axis ! 0) ?lm) = int (length axis) - 1
                   then int (length axis) - 2 else astype_int (true_divide (vs ! k - axis ! 0) ?lm))"
    by (auto simp: closest_def Let_def split: if_splits)
  then show e: "idx ! k = (if \<lfloor>?q\<rfloor> = n then n - 1 else \<lfloor>?q\<rfloor>)"
    unfolding cast using len by simp
  show "0 \<le> idx ! k" using e f0 n(1) by (simp split: if_splits)
  show "idx ! k < n" using e fn by (simp split: if_splits)
qed

subsection \<open>When the accumulation succeeds\<close>

lemma wrap_index_nonneg: "0 \<le> i \<Longrightarrow> i < int n \<Longrightarrow> wrap_index i n = Inr (nat i)"
  by (simp add: wrap_index_def)

lemma add_cell_shape:
  assumes "add_cell grid i j w = Inr grid1"
  shows "length grid1 = length grid \<and> map length grid1 = map length grid"
proof -
  from assms obtain r k where r: "r < length grid" and k: "k < length (grid ! r)"
    and g: "grid1 = grid[r := (grid ! r)[k := grid ! r ! k + w]]"
    by (auto simp: add_cell_def bind_Inr_iff dest!: wrap_index_Inr)
  show ?thesis
    unfolding g using r by (simp add: map_update list_update_same_conv)
qed

lemma add_at_succeeds:
  assumes "\<forall>row \<in> set grid. length row = n"
    and "\<forall>(i, j, w) \<in> set ts. 0 \<le> i \<and> i < int (length grid) \<and> 0 \<le> j \<and> j < int n"
  shows "\<exists>grid1. add_at grid ts = Inr grid1"
  using assms
proof (induction ts arbitrary: grid)
  case Nil
  then show ?case by simp
next
  case (Cons t ts)
  obtain i j w where t: "t = (i, j, w)" by (cases t)
  with Cons.prems(2) have ij: "0 \<le> i" "i < int (length grid)" "0 \<le> j" "j < int n"
    by auto
  then have "nat i < length grid" by simp
  with Cons.prems(1) have "length (grid ! nat i) = n" by simp
  with ij obtain g where g: "add_cell grid i j w = Inr g"
    by (simp add: add_cell_def wrap_index_nonneg bind_def)
  from add_cell_shape [OF g] have sh: "length g = length grid" "map length g = map length grid"
    by simp_all
  have "\<forall>row \<in> set g. length row = n"
  proof
    fix row assume "row \<in> set g"
    then have "length row \<in> set (map length g)" by simp
    with sh(2) Cons.prems(1) show "length row = n" by auto
  qed
  moreover have "\<forall>(i, j, w) \<in> set ts. 0 \<le> i \<and> i < int (length g) \<and> 0 \<le> j \<and> j < int n"
    using Cons.prems(2) sh(1) by auto
  ultimately obtain g1 where "add_at g ts = Inr g1"
    using Cons.IH by blast
  with g t show ?case by (simp add: bind_def)
qed

lemma zeros_Inr:
  assumes "1 \<le> m" "1 \<le> n" "m * n * 8 < 2 ^ 63"
  shows "zeros m n = Inr (replicate (nat m) (replicate (nat n) 0))"
  using assms by (simp add: zeros_def)

lemma get_particle_mask_bound:
  "get_particle_mask tracks particle = Inr pm \<Longrightarrow> \<forall>i \<in> set pm. i < length tracks"
  by (auto simp: get_particle_mask_def mask_neutron_tracks_def mask_photon_tracks_def
      np_where_def split: if_splits)

lemma set_intersect1d: "set (intersect1d xs ys) = set xs \<inter> set ys"
  by (auto simp: intersect1d_def)

lemma take_mask_Inr:
  "\<forall>i \<in> set m. i < length xs \<Longrightarrow> take_mask xs m = Inr (map (\<lambda>i. xs ! i) m)"
  by (simp add: take_mask_def)

lemma linspace_Inr: "1 \<le> n \<Longrightarrow> \<exists>axis. linspace a b (n + 1) = Inr axis"
  by (simp add: linspace_def)

lemma closest_Inr: "2 \<le> length axis \<Longrightarrow> \<exists>idx. closest axis vs = Inr idx"
  by (simp add: closest_def Let_def)

lemma bins_bound:
  assumes "1 \<le> (m :: int)" "1 \<le> n" "m * n * 8 < 2 ^ 63"
  shows "m < 2 ^ 63" and "n < 2 ^ 63"
proof -
  have "m * 1 \<le> m * n" using assms(1,2) by (intro mult_left_mono) auto
  moreover have "1 * n \<le> m * n" using assms(1,2) by (intro mult_right_mono) auto
  moreover have "m * n \<le> m * n * 8" using assms(1,2) by simp
  ultimately show "m < 2 ^ 63" and "n < 2 ^ 63" using assms(3) by auto
qed

lemma spread_min_max:
  assumes "np_min vs = Inr lo" "np_max vs = Inr hi" "u \<in> set vs" "w \<in> set vs" "u \<noteq> w"
  shows "lo < hi"
proof -
  from np_min_Inr [OF assms(1)] assms(3,4) have "lo \<le> u" "lo \<le> w" by auto
  moreover from np_max_Inr [OF assms(2)] assms(3,4) have "u \<le> hi" "w \<le> hi" by auto
  ultimately show ?thesis using assms(5) by linarith
qed

lemma closest_indices_in_range:
  assumes n: "1 \<le> n" "n < 2 ^ 63"
    and lo: "np_min vs = Inr lo" and hi: "np_max vs = Inr hi" and lt: "lo < hi"
    and ax: "linspace lo hi (n + 1) = Inr axis"
    and cl: "closest axis vs = Inr idx"
    and k: "k < length vs"
  shows "0 \<le> idx ! k \<and> idx ! k < n"
proof -
  from k have "vs ! k \<in> set vs" by simp
  with np_min_Inr [OF lo] np_max_Inr [OF hi] have "lo \<le> vs ! k" "vs ! k \<le> hi" by auto
  with closest_index(2,3) [OF n lt ax cl k] show ?thesis by simp
qed

lemma generate_succeeds:
  assumes pm: "get_particle_mask tracks particle = Inr pm"
    and sel: "sel = (case mask_v of None \<Rightarrow> pm | Some m \<Rightarrow> intersect1d pm m)"
    and bins: "1 \<le> z_int" "1 \<le> theta_int" "z_int * theta_int * 8 < 2 ^ 63"
    and zsp: "i1 \<in> set sel" "i2 \<in> set sel" "t_z (tracks ! i1) \<noteq> t_z (tracks ! i2)"
    and tsp: "j1 \<in> set sel" "j2 \<in> set sel"
      "angle (t_x (tracks ! j1)) (t_y (tracks ! j1)) \<noteq> angle (t_x (tracks ! j2)) (t_y (tracks ! j2))"
  shows "\<exists>out. generate_figures_current_cyl p tracks particle z_int theta_int si mask_v = Inr out"
proof -
  have bound: "\<forall>i \<in> set sel. i < length tracks"
    using get_particle_mask_bound [OF pm] sel by (auto simp: set_intersect1d split: option.splits)
  define zs where "zs = map (\<lambda>i. t_z (tracks ! i)) sel"
  define xs where "xs = map (\<lambda>i. t_x (tracks ! i)) sel"
  define ys where "ys = map (\<lambda>i. t_y (tracks ! i)) sel"
  define ws where "ws = map (\<lambda>i. t_wgt (tracks ! i)) sel"
  define thetas where "thetas = map (\<lambda>i. angle (t_x (tracks ! i)) (t_y (tracks ! i))) sel"
  have tz: "take_mask (z_col tracks) sel = Inr zs"
    and tx: "take_mask (x_col tracks) sel = Inr xs"
    and ty: "take_mask (y_col tracks) sel = Inr ys"
    and tw: "take_mask (wgt tracks) sel = Inr ws"
    using bound by (simp_all add: take_mask_def z_col_def x_col_def y_col_def wgt_def
        zs_def xs_def ys_def ws_def)
  have th: "map (\<lambda>(xv, yv). angle xv yv) (zip xs ys) = thetas"
    by (simp add: xs_def ys_def thetas_def zip_map_map zip_same_conv_map comp_def)
  have ne: "zs \<noteq> []" "thetas \<noteq> []"
    using zsp(1) by (auto simp: zs_def thetas_def)
  obtain z_min z_max theta_min theta_max where
    mm: "np_min zs = Inr z_min" "np_max zs = Inr z_max"
        "np_min thetas = Inr theta_min" "np_max thetas = Inr theta_max"
    using np_min_nonempty [OF ne(1)] np_max_nonempty [OF ne(1)]
      np_min_nonempty [OF ne(2)] np_max_nonempty [OF ne(2)] by blast
  have zlt: "z_min < z_max"
    using spread_min_max [OF mm(1,2), of "t_z (tracks ! i1)" "t_z (tracks ! i2)"] zsp
    by (simp add: zs_def)
  have tlt: "theta_min < theta_max"
    using spread_min_max [OF mm(3,4), of "angle (t_x (tracks ! j1)) (t_y (tracks ! j1))"
        "angle (t_x (tracks ! j2)) (t_y (tracks ! j2))"] tsp
    by (simp add: thetas_def)
  obtain z_axis theta_axis where
    ax: "linspace z_min z_max (z_int + 1) = Inr z_axis"
        "linspace theta_min theta_max (theta_int + 1) = Inr theta_axis"
    using linspace_Inr [OF bins(1)] linspace_Inr [OF bins(2)] by blast
  have axes: "calculate_grid_axes_cyl tracks z_int theta_int (Some sel) = Inr (z_axis, theta_axis)"
    by (simp add: calculate_grid_axes_cyl_def tz tx ty th mm ax bind_def)
  have lens: "2 \<le> length z_axis" "2 \<le> length theta_axis"
    using linspace_axis(1) [OF bins(1) ax(1)] linspace_axis(1) [OF bins(2) ax(2)] bins(1,2)
    by simp_all
  obtain z_idx theta_idx where
    cl: "closest z_axis zs = Inr z_idx" "closest theta_axis thetas = Inr theta_idx"
    using closest_Inr [OF lens(1)] closest_Inr [OF lens(2)] by blast
  note bb = bins_bound [OF bins]
  have li: "length z_idx = length sel" "length theta_idx = length sel"
    using closest_length [OF cl(1)] closest_length [OF cl(2)] by (simp_all add: zs_def thetas_def)
  have zr: "0 \<le> z_idx ! k \<and> z_idx ! k < z_int" if "k < length sel" for k
    using closest_indices_in_range [OF bins(1) bb(1) mm(1,2) zlt ax(1) cl(1)] that
    by (simp add: zs_def)
  have tr: "0 \<le> theta_idx ! k \<and> theta_idx ! k < theta_int" if "k < length sel" for k
    using closest_indices_in_range [OF bins(2) bb(2) mm(3,4) tlt ax(2) cl(2)] that
    by (simp add: thetas_def)
  let ?g0 = "replicate (nat z_int) (replicate (nat theta_int) (0 :: real))"
  have z0: "zeros z_int theta_int = Inr ?g0"
    using bins by (rule zeros_Inr)
  have rows: "\<forall>row \<in> set ?g0. length row = nat theta_int"
    by simp
  have inr: "\<forall>(i, j, w) \<in> set (zip z_idx (zip theta_idx vs)).
               0 \<le> i \<and> i < int (length ?g0) \<and> 0 \<le> j \<and> j < int (nat theta_int)" for vs :: "real list"
  proof (clarify)
    fix i j w assume "(i, j, w) \<in> set (zip z_idx (zip theta_idx vs))"
    then obtain k where "k < length z_idx" "k < length theta_idx" "i = z_idx ! k" "j = theta_idx ! k"
      by (auto simp: in_set_zip)
    with zr [of k] tr [of k] li bins(1,2)
    show "0 \<le> i \<and> i < int (length ?g0) \<and> 0 \<le> j \<and> j < int (nat theta_int)"
      by simp
  qed
  obtain g1 e1 where
    add: "add_at ?g0 (zip z_idx (zip theta_idx ws)) = Inr g1"
         "add_at ?g0 (zip z_idx (zip theta_idx (map (\<lambda>_. 1) z_idx))) = Inr e1"
    using add_at_succeeds [OF rows inr] by blast
  from zsp(1) bound have "tracks \<noteq> []" by auto
  then obtain t0 rest where tr0: "tracks = t0 # rest" by (cases tracks) auto
  have it: "item_0 (x_col tracks) = Inr (t_x t0)" "item_0 (y_col tracks) = Inr (t_y t0)"
    by (simp_all add: item_0_def x_col_def y_col_def tr0)
  show ?thesis
    unfolding generate_figures_current_cyl_def
    by (simp add: pm sel [symmetric] axes z0 tz tx ty tw th cl add it bind_def Let_def)
qed

subsection \<open>The weight in a returned grid\<close>

lemma conservation_of_returned_grid:
  assumes "generate_figures_current_cyl p tracks particle z_int theta_int si mask_v = Inr out"
      and "get_particle_mask tracks particle = Inr pm"
      and "area out \<noteq> 0" and "si \<noteq> 0"
      and "sint (np1 p) < 0" and "- (2 ^ 63) < sint (np1 p)"
  shows "(\<forall>row \<in> set (grid_values out). \<forall>c \<in> set row. c \<noteq> None)
       \<and> (\<Sum>row\<leftarrow>grid_values out.
            \<Sum>c\<leftarrow>row. the c * area out * \<bar>float_of_int64 (np1 p)\<bar> / si)
         = (\<Sum>i\<leftarrow>(case mask_v of None \<Rightarrow> pm | Some m \<Rightarrow> intersect1d pm m). t_wgt (tracks ! i))"
proof -
  let ?sel = "case mask_v of None \<Rightarrow> pm | Some m \<Rightarrow> intersect1d pm m"
  from assms(1) obtain pm' z_axis theta_axis g0 zs xs ys ws z_idx theta_idx g1 e1 x0 y0 where
    pm': "get_particle_mask tracks particle = Inr pm'" and
    g0: "zeros z_int theta_int = Inr g0" and
    zs: "take_mask (z_col tracks) (case mask_v of None \<Rightarrow> pm' | Some m \<Rightarrow> intersect1d pm' m) = Inr zs" and
    xs: "take_mask (x_col tracks) (case mask_v of None \<Rightarrow> pm' | Some m \<Rightarrow> intersect1d pm' m) = Inr xs" and
    ys: "take_mask (y_col tracks) (case mask_v of None \<Rightarrow> pm' | Some m \<Rightarrow> intersect1d pm' m) = Inr ys" and
    ws: "take_mask (wgt tracks) (case mask_v of None \<Rightarrow> pm' | Some m \<Rightarrow> intersect1d pm' m) = Inr ws" and
    zi: "closest z_axis zs = Inr z_idx" and
    ti: "closest theta_axis (map (\<lambda>(xv, yv). angle xv yv) (zip xs ys)) = Inr theta_idx" and
    g1: "add_at g0 (zip z_idx (zip theta_idx ws)) = Inr g1" and
    out: "grid_values out = map (map (normalized (area out) (np1 p) si)) g1"
    by (rule generate_InrE) simp
  from pm' assms(2) have pm: "pm' = pm" by simp
  have N: "float_of_int64 (abs_int64 (np1 p)) = \<bar>float_of_int64 (np1 p)\<bar>"
    using assms(6) by (rule abs_int64_real)
  with assms(5) have N0: "float_of_int64 (abs_int64 (np1 p)) \<noteq> 0"
    by (simp add: float_of_int64_def del: of_int_sint)
  have lens: "length z_idx = length ws" "length theta_idx = length ws"
    using closest_length [OF zi] closest_length [OF ti] take_mask_length [OF zs]
      take_mask_length [OF xs] take_mask_length [OF ys] take_mask_length [OF ws] by simp_all
  have "sum_grid g1 = sum_list ws"
    using add_at_sum [OF g1] sum_grid_zeros [OF g0] sum_weights_zip [OF lens] by simp
  also have "ws = map (\<lambda>i. t_wgt (tracks ! i)) ?sel"
    using ws unfolding pm by (auto simp: take_mask_def wgt_def split: if_splits)
  finally have total: "sum_grid g1 = (\<Sum>i\<leftarrow>?sel. t_wgt (tracks ! i))" .
  have "\<forall>row \<in> set (grid_values out). \<forall>c \<in> set row. c \<noteq> None"
    using assms(3) N0 by (auto simp: out normalized_Some)
  moreover have "(\<Sum>row\<leftarrow>grid_values out.
            \<Sum>c\<leftarrow>row. the c * area out * \<bar>float_of_int64 (np1 p)\<bar> / si) = sum_grid g1"
    unfolding out N [symmetric]
    using sum_normalized_grid [OF assms(3) N0 assms(4), of g1] by (simp add: comp_def)
  ultimately show ?thesis using total by simp
qed

subsection \<open>The axes of a returned grid\<close>

lemma calculate_grid_axes_cyl_InrE:
  assumes "calculate_grid_axes_cyl tracks z_int theta_int (Some sel) = Inr (z_axis, theta_axis)"
  obtains zs xs ys z_min z_max theta_min theta_max where
    "take_mask (z_col tracks) sel = Inr zs"
    "take_mask (x_col tracks) sel = Inr xs"
    "take_mask (y_col tracks) sel = Inr ys"
    "np_min zs = Inr z_min" "np_max zs = Inr z_max"
    "np_min (map (\<lambda>(xv, yv). angle xv yv) (zip xs ys)) = Inr theta_min"
    "np_max (map (\<lambda>(xv, yv). angle xv yv) (zip xs ys)) = Inr theta_max"
    "linspace z_min z_max (z_int + 1) = Inr z_axis"
    "linspace theta_min theta_max (theta_int + 1) = Inr theta_axis"
  using assms unfolding calculate_grid_axes_cyl_def Let_def
  by (auto simp: bind_Inr_iff)

lemma take_mask_values:
  assumes "take_mask (map f tracks) sel = Inr vs"
  shows "vs = map (\<lambda>i. f (tracks ! i)) sel \<and> (\<forall>i \<in> set sel. i < length tracks)"
  using assms by (auto simp: take_mask_def split: if_splits)

lemma axes_steps_positive:
  assumes ax: "calculate_grid_axes_cyl tracks z_int theta_int (Some sel) = Inr (z_axis, theta_axis)"
    and bins: "1 \<le> z_int" "1 \<le> theta_int"
    and zsp: "i1 \<in> set sel" "i2 \<in> set sel" "t_z (tracks ! i1) \<noteq> t_z (tracks ! i2)"
    and tsp: "j1 \<in> set sel" "j2 \<in> set sel"
      "angle (t_x (tracks ! j1)) (t_y (tracks ! j1)) \<noteq> angle (t_x (tracks ! j2)) (t_y (tracks ! j2))"
  shows "0 < z_axis ! 1 - z_axis ! 0" and "0 < theta_axis ! 1 - theta_axis ! 0"
proof -
  from ax obtain zs xs ys z_min z_max theta_min theta_max where
    tz: "take_mask (z_col tracks) sel = Inr zs" and
    tx: "take_mask (x_col tracks) sel = Inr xs" and
    ty: "take_mask (y_col tracks) sel = Inr ys" and
    mz: "np_min zs = Inr z_min" "np_max zs = Inr z_max" and
    mt: "np_min (map (\<lambda>(xv, yv). angle xv yv) (zip xs ys)) = Inr theta_min"
        "np_max (map (\<lambda>(xv, yv). angle xv yv) (zip xs ys)) = Inr theta_max" and
    lz: "linspace z_min z_max (z_int + 1) = Inr z_axis" and
    lt: "linspace theta_min theta_max (theta_int + 1) = Inr theta_axis"
    by (rule calculate_grid_axes_cyl_InrE)
  have zs: "zs = map (\<lambda>i. t_z (tracks ! i)) sel"
    using take_mask_values [of t_z tracks sel zs] tz by (simp add: z_col_def)
  have xs: "xs = map (\<lambda>i. t_x (tracks ! i)) sel"
    using take_mask_values [of t_x tracks sel xs] tx by (simp add: x_col_def)
  have ys: "ys = map (\<lambda>i. t_y (tracks ! i)) sel"
    using take_mask_values [of t_y tracks sel ys] ty by (simp add: y_col_def)
  have th: "map (\<lambda>(xv, yv). angle xv yv) (zip xs ys)
            = map (\<lambda>i. angle (t_x (tracks ! i)) (t_y (tracks ! i))) sel"
    by (simp add: xs ys zip_map_map zip_same_conv_map comp_def)
  have "z_min < z_max"
    using spread_min_max [OF mz, of "t_z (tracks ! i1)" "t_z (tracks ! i2)"] zsp
    by (simp add: zs)
  then show "0 < z_axis ! 1 - z_axis ! 0"
    using linspace_axis(3) [OF bins(1) lz] bins(1) by simp
  have "theta_min < theta_max"
    using spread_min_max [OF mt, of "angle (t_x (tracks ! j1)) (t_y (tracks ! j1))"
        "angle (t_x (tracks ! j2)) (t_y (tracks ! j2))"] tsp
    by (simp add: th)
  then show "0 < theta_axis ! 1 - theta_axis ! 0"
    using linspace_axis(3) [OF bins(2) lt] bins(2) by simp
qed

lemma linalg_norm_pair: "linalg_norm [p, q] = sqrt (p\<^sup>2 + q\<^sup>2)"
  by (simp add: linalg_norm_def)

lemma item_0_map: "item_0 (map f tracks) = Inr v \<Longrightarrow> tracks \<noteq> [] \<and> v = f (tracks ! 0)"
  by (cases tracks) (simp_all add: item_0_def)

lemma linspace_length: "linspace a b num = Inr axis \<Longrightarrow> int (length axis) = num"
  by (auto simp: linspace_def split: if_splits)

lemma generate_Inr_bins:
  assumes "generate_figures_current_cyl p tracks particle z_int theta_int si mask_v = Inr out"
  shows "1 \<le> z_int \<and> 1 \<le> theta_int"
proof -
  from assms obtain pm z_axis theta_axis zs xs ys z_idx theta_idx where
    ax: "calculate_grid_axes_cyl tracks z_int theta_int
           (Some (case mask_v of None \<Rightarrow> pm | Some m \<Rightarrow> intersect1d pm m)) = Inr (z_axis, theta_axis)" and
    cz: "closest z_axis zs = Inr z_idx" and
    ct: "closest theta_axis (map (\<lambda>(xv, yv). angle xv yv) (zip xs ys)) = Inr theta_idx"
    by (rule generate_InrE)
  from ax obtain z_min z_max theta_min theta_max where
    lz: "linspace z_min z_max (z_int + 1) = Inr z_axis" and
    lt: "linspace theta_min theta_max (theta_int + 1) = Inr theta_axis"
    by (rule calculate_grid_axes_cyl_InrE)
  from closest_length [OF cz] linspace_length [OF lz] have "1 \<le> z_int"
    by simp
  moreover from closest_length [OF ct] linspace_length [OF lt] have "1 \<le> theta_int"
    by simp
  ultimately show ?thesis
    by simp
qed

section \<open>The binner on the example tracks\<close>

lemma np_where_Nil: "np_where cond [] = []"
  by (simp add: np_where_def)

lemma np_where_Cons:
  "np_where cond (v # vs) =
     (if cond v then 0 # map Suc (np_where cond vs) else map Suc (np_where cond vs))"
proof -
  have "[0..<length (v # vs)] = 0 # map Suc [0..<length vs]"
    by (simp add: upt_conv_Cons map_Suc_upt del: upt_Suc)
  then show ?thesis
    by (simp add: np_where_def filter_map comp_def)
qed

lemmas upt_numeral = upt_rec [of _ "numeral n"] for n

lemmas binner_defs =
  get_particle_mask_def mask_neutron_tracks_def mask_photon_tracks_def np_where_Nil np_where_Cons
  calculate_grid_axes_cyl_def take_mask_def z_col_def x_col_def y_col_def wgt_def
  np_min_def np_max_def linspace_def angle_def zeros_def closest_def true_divide_def
  astype_int_def wrap_index_def add_cell_def item_0_def linalg_norm_def normalized_def
  abs_int64_def float_of_int64_def intersect1d_def bind_def

lemma mask_two_tracks: "get_particle_mask two_tracks ''n'' = Inr [0, 1]"
  by (simp add: two_tracks_def track_at_def binner_defs)

lemma photons_two_tracks: "get_particle_mask two_tracks ''p'' = Inr []"
  by (simp add: two_tracks_def track_at_def binner_defs)

lemma mask_one_track: "get_particle_mask one_track ''n'' = Inr [0]"
  by (simp add: one_track_def track_at_def binner_defs)


lemma axes_two_tracks_0:
  "calculate_grid_axes_cyl two_tracks 0 2 (Some [0, 1]) = Inr ([0], [0, pi / 4, pi / 2])"
  by (simp add: two_tracks_def track_at_def binner_defs upt_numeral)

lemma axes_one_track:
  "calculate_grid_axes_cyl one_track 2 2 (Some [0]) = Inr ([0, 0, 0], [0, 0, 0])"
  by (simp add: one_track_def track_at_def binner_defs Let_def upt_numeral)

lemma closest_z_two: "closest [0, 1 / 2, 1] [0, 1] = Inr [0, 1]"
  by (simp add: binner_defs)


lemma closest_degenerate: "closest [0, 0, 0] [0] = Inr [- (2 ^ 63)]"
  by (simp add: binner_defs)


lemma generate_one_track:
  "generate_figures_current_cyl header_parameters one_track ''n'' 2 2 1 None = Inl IndexError"
  unfolding generate_figures_current_cyl_def mask_one_track
  apply (simp add: axes_one_track bind_def)
  apply (simp add: one_track_def track_at_def binner_defs closest_degenerate numeral_2_eq_2)
  done

lemma generate_zero_bins:
  "generate_figures_current_cyl header_parameters two_tracks ''n'' 0 2 1 None = Inl IndexError"
  unfolding generate_figures_current_cyl_def mask_two_tracks
  apply (simp add: axes_two_tracks_0 bind_def)
  apply (simp add: two_tracks_def track_at_def binner_defs)
  done

lemma plot_two_tracks_x_range:
  "plot_current_cyl header_parameters two_tracks ''n'' 2 2 1 (Some (- 1, 1)) None = Inl TypeError"
  by (simp add: plot_current_cyl_def two_tracks_def track_at_def item_0_def x_col_def y_col_def
      bind_def linalg_norm_def np_where_Nil np_where_Cons angle_def)


section \<open>The claims about the binner\<close>

text \<open>
  Claim C2, as the code has it, in exact arithmetic. Take a call with one of the two particle
  kinds and positive bin counts (a grid that numpy can allocate), whose selected rows have
  at least two different \<open>z\<close> values and at least two different angles, on a table
  whose row 0 is off the axis, with a non-zero source intensity and a header count \<open>np1\<close>
  that is negative and not the smallest 64-bit integer. Then the binner returns its grids,
  every cell of the values grid is a finite number, and the sum over all cells of the value
  times the cell area times \<open>|np1|\<close> divided by the source intensity is the sum of the
  weights of the selected rows.
\<close>

theorem binning_conservation:
  assumes pm: "get_particle_mask tracks particle = Inr pm"
    and sel: "sel = (case mask_v of None \<Rightarrow> pm | Some m \<Rightarrow> intersect1d pm m)"
    and bins: "1 \<le> z_int" "1 \<le> theta_int" "z_int * theta_int * 8 < 2 ^ 63"
    and zsp: "i1 \<in> set sel" "i2 \<in> set sel" "t_z (tracks ! i1) \<noteq> t_z (tracks ! i2)"
    and tsp: "j1 \<in> set sel" "j2 \<in> set sel"
      "angle (t_x (tracks ! j1)) (t_y (tracks ! j1)) \<noteq> angle (t_x (tracks ! j2)) (t_y (tracks ! j2))"
    and radius: "sqrt ((t_x (tracks ! 0))\<^sup>2 + (t_y (tracks ! 0))\<^sup>2) \<noteq> 0"
    and si: "si \<noteq> 0"
    and np: "sint (np1 p) < 0" "- (2 ^ 63) < sint (np1 p)"
  shows "\<exists>out. generate_figures_current_cyl p tracks particle z_int theta_int si mask_v = Inr out
           \<and> (\<forall>row \<in> set (grid_values out). \<forall>c \<in> set row. c \<noteq> None)
           \<and> (\<Sum>row\<leftarrow>grid_values out.
                \<Sum>c\<leftarrow>row. the c * area out * \<bar>float_of_int64 (np1 p)\<bar> / si)
             = (\<Sum>i\<leftarrow>sel. t_wgt (tracks ! i))"
proof -
  from generate_succeeds [OF pm sel bins zsp tsp] obtain out where
    out: "generate_figures_current_cyl p tracks particle z_int theta_int si mask_v = Inr out"
    by blast
  from out obtain pm' z_axis theta_axis x0 y0 where
    pm': "get_particle_mask tracks particle = Inr pm'" and
    ax: "calculate_grid_axes_cyl tracks z_int theta_int
           (Some (case mask_v of None \<Rightarrow> pm' | Some m \<Rightarrow> intersect1d pm' m)) = Inr (z_axis, theta_axis)" and
    x0: "item_0 (x_col tracks) = Inr x0" and y0: "item_0 (y_col tracks) = Inr y0" and
    ar: "area out = \<bar>linalg_norm [x0, y0] * (theta_axis ! 1 - theta_axis ! 0) * (z_axis ! 1 - z_axis ! 0)\<bar>"
    by (rule generate_InrE) simp
  from pm pm' have pp: "pm' = pm"
    by simp
  have ax': "calculate_grid_axes_cyl tracks z_int theta_int (Some sel) = Inr (z_axis, theta_axis)"
    unfolding sel using ax unfolding pp .
  note st = axes_steps_positive [OF ax' bins(1,2) zsp tsp]
  have "linalg_norm [x0, y0] = sqrt ((t_x (tracks ! 0))\<^sup>2 + (t_y (tracks ! 0))\<^sup>2)"
    using item_0_map [of t_x tracks x0] item_0_map [of t_y tracks y0] x0 y0
    by (simp add: linalg_norm_pair x_col_def y_col_def)
  with radius st have a0: "area out \<noteq> 0"
    unfolding ar by simp
  from conservation_of_returned_grid [OF out pm a0 si np] sel out show ?thesis
    by auto
qed

theorem binning_conservation_witness:
  "get_particle_mask two_tracks ''n'' = Inr [0, 1]
   \<and> (\<exists>out. generate_figures_current_cyl header_parameters two_tracks ''n'' 2 2 1 None = Inr out
         \<and> (\<forall>row \<in> set (grid_values out). \<forall>c \<in> set row. c \<noteq> None)
         \<and> (\<Sum>row\<leftarrow>grid_values out.
              \<Sum>c\<leftarrow>row. the c * area out * \<bar>float_of_int64 (np1 header_parameters)\<bar> / 1)
           = (\<Sum>i\<leftarrow>[0, 1]. t_wgt (two_tracks ! i)))"
proof -
  have sel: "[0, 1] = (case None of None \<Rightarrow> [0, 1 :: nat] | Some m \<Rightarrow> intersect1d [0, 1] m)"
    by simp
  have z: "t_z (two_tracks ! 0) \<noteq> t_z (two_tracks ! 1)"
    by (simp add: two_tracks_def track_at_def)
  have t: "angle (t_x (two_tracks ! 0)) (t_y (two_tracks ! 0))
           \<noteq> angle (t_x (two_tracks ! 1)) (t_y (two_tracks ! 1))"
    by (simp add: two_tracks_def track_at_def angle_def)
  have r: "sqrt ((t_x (two_tracks ! 0))\<^sup>2 + (t_y (two_tracks ! 0))\<^sup>2) \<noteq> 0"
    by (simp add: two_tracks_def track_at_def)
  have n: "sint (np1 header_parameters) < 0" "- (2 ^ 63) < sint (np1 header_parameters)"
    by (simp_all add: header_parameters_def)
  show ?thesis
    using binning_conservation [OF mask_two_tracks sel _ _ _ _ _ z _ _ t r _ n,
        of 2 2 1]
    by (simp add: mask_two_tracks)
qed

text \<open>
  Claim C2, as stated, fails: a selection of one row is not empty, both axes collapse to a
  point, the quotient in \<open>closest\<close> is 0/0, and \<open>np.add.at\<close> raises IndexError on the
  index the cast gives. No grid is returned.
\<close>

theorem binning_one_track_counterexample:
  "get_particle_mask one_track ''n'' = Inr [0]
   \<and> generate_figures_current_cyl header_parameters one_track ''n'' 2 2 1 None = Inl IndexError"
  using mask_one_track generate_one_track by (rule conjI)

text \<open>
  Claim C3, as the code has it. When the selection is empty (a valid particle kind, and no
  row left after the geometric mask), the binner fails and returns no grid. It has no guard
  of its own: the failure is the ValueError that numpy's \<open>min\<close> raises on the empty array
  of \<open>z\<close> values, the first statement of \<open>calculate_grid_axes_cyl\<close>.
\<close>

theorem empty_selection_fails:
  assumes "get_particle_mask tracks particle = Inr pm"
    and "(case mask_v of None \<Rightarrow> pm | Some m \<Rightarrow> intersect1d pm m) = []"
  shows "calculate_grid_axes_cyl tracks z_int theta_int (Some []) = Inl ValueError_zero_size
       \<and> generate_figures_current_cyl p tracks particle z_int theta_int si mask_v
           = Inl ValueError_zero_size"
proof -
  have c: "calculate_grid_axes_cyl tracks z_int theta_int (Some []) = Inl ValueError_zero_size"
    by (simp add: calculate_grid_axes_cyl_def take_mask_def np_min_def bind_def)
  then show ?thesis
    using assms by (simp add: generate_figures_current_cyl_def bind_def)
qed

theorem empty_selection_fails_witness:
  "get_particle_mask two_tracks ''p'' = Inr []
   \<and> calculate_grid_axes_cyl two_tracks 2 2 (Some []) = Inl ValueError_zero_size
   \<and> generate_figures_current_cyl header_parameters two_tracks ''p'' 2 2 1 None
       = Inl ValueError_zero_size"
  using empty_selection_fails [OF photons_two_tracks, of None 2 2 header_parameters 1]
    photons_two_tracks
  by simp

text \<open>
  Claim C3, as stated, fails where it says that the minimum of the empty array is not
  computed: with a geometric mask that leaves no row, the exception of the binner is the one
  of \<open>calculate_grid_axes_cyl\<close> on the empty selection, which is the one of \<open>min\<close>.
\<close>

theorem empty_selection_counterexample:
  "generate_figures_current_cyl header_parameters two_tracks ''n'' 2 2 1 (Some [])
     = Inl ValueError_zero_size
   \<and> calculate_grid_axes_cyl two_tracks 2 2 (Some []) = Inl ValueError_zero_size
   \<and> np_min [] = Inl ValueError_zero_size"
  by (simp add: generate_figures_current_cyl_def mask_two_tracks intersect1d_def
      calculate_grid_axes_cyl_def take_mask_def np_min_def bind_def)

text \<open>
  Claim C5, as the code has it. A particle kind other than \<open>'n'\<close> and \<open>'p'\<close> makes the
  binner fail with the ValueError of \<open>get_particle_mask\<close>, its first statement, whatever
  the other arguments are. The bin counts are not checked: with a bin count that is zero or
  negative the binner never returns a grid, but the exception is raised by numpy in the
  middle of the computation.
\<close>

theorem invalid_arguments:
  "(particle \<noteq> ''n'' \<and> particle \<noteq> ''p'' \<longrightarrow>
      generate_figures_current_cyl p tracks particle z_int theta_int si mask_v
        = Inl ValueError_particle)
   \<and> (z_int \<le> 0 \<or> theta_int \<le> 0 \<longrightarrow>
      (\<exists>e. generate_figures_current_cyl p tracks particle z_int theta_int si mask_v = Inl e))"
proof (intro conjI impI)
  assume "particle \<noteq> ''n'' \<and> particle \<noteq> ''p''"
  then show "generate_figures_current_cyl p tracks particle z_int theta_int si mask_v
        = Inl ValueError_particle"
    by (simp add: generate_figures_current_cyl_def get_particle_mask_def bind_def)
next
  assume b: "z_int \<le> 0 \<or> theta_int \<le> 0"
  show "\<exists>e. generate_figures_current_cyl p tracks particle z_int theta_int si mask_v = Inl e"
  proof (cases "generate_figures_current_cyl p tracks particle z_int theta_int si mask_v")
    case (Inl e)
    then show ?thesis
      by blast
  next
    case (Inr out)
    from generate_Inr_bins [OF Inr] b show ?thesis
      by simp
  qed
qed

theorem invalid_arguments_witness:
  "generate_figures_current_cyl header_parameters two_tracks ''x'' 2 2 1 None
     = Inl ValueError_particle
   \<and> (\<exists>e. generate_figures_current_cyl header_parameters two_tracks ''n'' 0 2 1 None = Inl e)"
  using invalid_arguments [of "''x''" header_parameters two_tracks 2 2 1 None]
    invalid_arguments [of "''n''" header_parameters two_tracks 0 2 1 None]
  by simp

text \<open>
  Claim C5, as stated, fails: with \<open>z_int = 0\<close> the axes are computed from the selected
  rows, and the exception is the IndexError of \<open>axis[1]\<close> in \<open>closest\<close>, not the
  exception for an invalid argument.
\<close>

theorem bin_count_counterexample:
  "calculate_grid_axes_cyl two_tracks 0 2 (Some [0, 1]) = Inr ([0], [0, pi / 4, pi / 2])
   \<and> generate_figures_current_cyl header_parameters two_tracks ''n'' 0 2 1 None = Inl IndexError"
  using axes_two_tracks_0 generate_zero_bins by (rule conjI)

text \<open>
  Claim C8, as the code has it, in exact arithmetic. Let the axis be the \<open>n + 1\<close> edges
  \<open>np.linspace\<close> gives from \<open>a\<close> to \<open>b\<close>, with \<open>a < b\<close> and \<open>1 \<le> n < 2^63\<close>. For a value
  between \<open>a\<close> and \<open>b\<close>, the index \<open>closest\<close> computes is the floor of
  \<open>(value - axis[0]) / (axis[1] - axis[0])\<close>, lowered by one when it is \<open>n\<close>; it is a
  valid bin index, and for a value equal to the last edge it is \<open>n - 1\<close>.
\<close>

theorem closest_upper_edge:
  assumes "1 \<le> n" and "n < 2 ^ 63" and "a < b"
    and "linspace a b (n + 1) = Inr axis"
    and "closest axis vs = Inr idx"
    and "k < length vs" and "a \<le> vs ! k" and "vs ! k \<le> b"
  shows "idx ! k = (if \<lfloor>(vs ! k - axis ! 0) / (axis ! 1 - axis ! 0)\<rfloor> = n then n - 1
                    else \<lfloor>(vs ! k - axis ! 0) / (axis ! 1 - axis ! 0)\<rfloor>)
       \<and> 0 \<le> idx ! k \<and> idx ! k < n
       \<and> (vs ! k = last axis \<longrightarrow> idx ! k = n - 1)"
proof -
  note ci = closest_index [OF assms]
  note la = linspace_axis [OF assms(1,4)]
  have "idx ! k = n - 1" if "vs ! k = last axis"
  proof -
    have "(vs ! k - axis ! 0) / (axis ! 1 - axis ! 0) = real_of_int n"
      using that la assms(1,3) by simp
    then show ?thesis
      using ci(1) by simp
  qed
  with ci show ?thesis
    by blast
qed

theorem closest_upper_edge_witness:
  "linspace 0 1 (2 + 1) = Inr [0, 1 / 2, 1]
   \<and> closest [0, 1 / 2, 1] [0, 1] = Inr [0, 1]
   \<and> [0, 1 :: real] ! 1 = last [0, 1 / 2, 1]
   \<and> [0, 1 :: int] ! 1 = 2 - 1"
proof -
  have l: "linspace 0 1 (2 + 1) = Inr [0, 1 / 2, 1]"
    by (simp add: linspace_def upt_numeral)
  from closest_upper_edge [OF _ _ _ l closest_z_two, of 1] l closest_z_two show ?thesis
    by simp
qed

text \<open>
  Claim C8, as stated, fails on an axis whose edges are all equal, the axis of a selection
  with a single value: the value 5 is the last edge of the one-bin axis \<open>[5, 5]\<close>, and the
  index is the cast of 0/0, not 0.
\<close>

theorem closest_degenerate_counterexample:
  "linspace 5 5 (1 + 1) = Inr [5, 5] \<and> closest [5, 5] [5] = Inr [- (2 ^ 63)]"
  by (simp add: linspace_def closest_def true_divide_def astype_int_def)

text \<open>
  Claim C9 at two neutron tracks with the perimeter range \<open>(-1, 1)\<close> and no axial range:
  \<open>plot_current_cyl\<close> raises TypeError in \<open>np.intersect1d(None, mask1)\<close> and bins
  nothing.
\<close>

theorem plot_perimeter_filter_alone:
  "plot_current_cyl header_parameters two_tracks ''n'' 2 2 1 (Some (- 1, 1)) None = Inl TypeError"
  by (rule plot_two_tracks_x_range)



end
